theory Spec2Isabelle
  imports Main "HOL-Library.Finite_Map" "HOL-Library.Sublist" "HOL-Library.Word"
begin

section \<open>Python strings\<close>

text \<open>
  A Python \<^verbatim>\<open>str\<close> is modelled as a \<^typ>\<open>string\<close> whose characters are the code points
  below 256. \<^verbatim>\<open>str.isspace\<close> holds on that range for TAB, LF, VT, FF, CR, the four
  separators FS, GS, RS, US, the blank, NEL (0x85) and NBSP (0xA0).
\<close>

definition isspace :: "char \<Rightarrow> bool" where
  "isspace c \<longleftrightarrow> of_char c \<in> set [9, 10, 11, 12, 13, 28, 29, 30, 31, 32, 133, 160 :: nat]"

text \<open>\<^verbatim>\<open>s.strip()\<close>: whitespace is removed at both ends.\<close>

definition strip :: "string \<Rightarrow> string" where
  "strip s = rev (dropWhile isspace (rev (dropWhile isspace s)))"

text \<open>
  \<^verbatim>\<open>s.replace(old, new)\<close>: the occurrences of \<open>old\<close> are replaced from left to right
  without overlap; an empty \<open>old\<close> matches before every character and at the end.
\<close>

fun replace :: "string \<Rightarrow> string \<Rightarrow> string \<Rightarrow> string" where
  "replace old new [] = (if old = [] then new else [])"
| "replace old new (c # cs) =
    (case old of
       [] \<Rightarrow> new @ c # replace old new cs
     | o1 # os \<Rightarrow>
         if prefix old (c # cs) then new @ replace old new (drop (length os) cs)
         else c # replace old new cs)"

text \<open>\<^verbatim>\<open>sub in s\<close> on two strings: \<open>sub\<close> occurs in \<open>s\<close>.\<close>

fun str_contains :: "string \<Rightarrow> string \<Rightarrow> bool" where
  "str_contains sub [] = (sub = [])"
| "str_contains sub (c # cs) = (prefix sub (c # cs) \<or> str_contains sub cs)"

text \<open>\<^verbatim>\<open>sep.join(xs)\<close>.\<close>

fun join :: "string \<Rightarrow> string list \<Rightarrow> string" where
  "join sep [] = []"
| "join sep [x] = x"
| "join sep (x # y # ys) = x @ sep @ join sep (y # ys)"

text \<open>\<^verbatim>\<open>str(n)\<close> on an integer, as an f-string renders it.\<close>

fun str_nat :: "nat \<Rightarrow> string" where
  "str_nat n =
     (if n < 10 then [''0123456789'' ! n]
      else str_nat (n div 10) @ [''0123456789'' ! (n mod 10)])"

definition str_int :: "int \<Rightarrow> string" where
  "str_int i = (if i < 0 then ''-'' @ str_nat (nat (- i)) else str_nat (nat i))"


section \<open>Values of \<^verbatim>\<open>json.loads\<close>, exceptions, standard output\<close>

text \<open>
  What \<^verbatim>\<open>json.loads\<close> can return: \<^verbatim>\<open>None\<close>, a bool, an int, a float (kept as its 64-bit
  pattern, which nothing in the program inspects), a str, a list, or a dict with str keys.
  A dict is a finite map, so equality of objects does not depend on the order of the keys,
  as in Python.
\<close>

datatype json =
    JNull
  | JBool bool
  | JInt int
  | JFloat "64 word"
  | JString string
  | JArray "json list"
  | JObject "(string, json) fmap"

text \<open>One line of a pydantic validation error: where, and what kind.\<close>

datatype loc_item = Field string | Index nat

datatype error_type =
  missing | string_type | int_type | list_type | model_type | literal_error

type_synonym line_errors = "(loc_item list \<times> error_type) list"

datatype py_exception =
    AttributeError
  | JSONDecodeError
  | TypeError
  | KeyError
  | ValidationError line_errors
  | HTTPException nat json
  | LibraryError string

text \<open>A line written by \<^verbatim>\<open>print\<close>: plain text, or an f-string that ends in an exception.\<close>

datatype printed = Print string | PrintExc string py_exception


section \<open>schemas.py\<close>

record Vehicle =
  make' :: string
  model :: string
  year :: int

record Problem =
  name :: string
  description :: string

record Severity =
  level :: string
  message :: string

record EstimatedCost =
  range' :: string
  disclaimer :: string

record HistoryTurn =
  role :: string
  content :: string

record ConversationTurnRequest =
  vehicle :: Vehicle
  history :: "HistoryTurn list"

record VehicleTextRequest =
  query :: string

record DiagnosticReportResponse =
  potential_problems :: "Problem list"
  severity :: Severity
  next_steps :: "string list"
  estimated_cost :: EstimatedCost
  disclaimers :: "string list"

record ErrorResponse =
  error :: string

text \<open>The values that \<^verbatim>\<open>Literal["CRITICAL", "CAUTION", "INFORMATION"]\<close> admits.\<close>

definition Severity_level_literals :: "string list" where
  "Severity_level_literals = [''CRITICAL'', ''CAUTION'', ''INFORMATION'']"


section \<open>The environment of the program\<close>

text \<open>
  The language model, \<^verbatim>\<open>json.loads\<close>, \<^verbatim>\<open>PIL.Image.open\<close> and the two lax coercions of
  pydantic are libraries outside the repository. They are parameters of the model:
  \<^item> \<open>generate_content\<close> answers a system instruction and a content with a response, or
    raises;
  \<^item> \<open>loads\<close> returns the parsed value or raises: \<open>JSONDecodeError\<close> on a text that it
    rejects as malformed, another exception (a \<open>LibraryError\<close>, by its name) where the
    parser fails otherwise, as with \<^verbatim>\<open>RecursionError\<close> on deep nesting;
  \<^item> \<open>Image_open\<close> returns the image or raises;
  \<^item> \<open>str_lax\<close> and \<open>int_lax\<close> say what pydantic accepts for a \<^verbatim>\<open>str\<close> or \<^verbatim>\<open>int\<close> field when
    the input is not already of that type (a numeric string for an int, for one), and
    the value it converts the input to.
\<close>

datatype instruction = SYSTEM_PROMPT | vin_system_prompt | text_system_prompt

type_synonym bytes = "8 word list"

datatype PIL_Image = PIL_Image bytes

datatype part = TextPart string | ImagePart PIL_Image

datatype content = Text string | Image PIL_Image | Parts "part list"

text \<open>
  The reply of the language model. \<open>text'\<close> is \<open>None\<close> when the reply carries no usable
  \<^verbatim>\<open>text\<close>, so that \<^verbatim>\<open>response.text.strip()\<close> raises \<^verbatim>\<open>AttributeError\<close>.
\<close>

record response =
  text' :: "string option"

record env =
  generate_content :: "instruction \<Rightarrow> content \<Rightarrow> py_exception + response"
  loads :: "string \<Rightarrow> py_exception + json"
  Image_open :: "bytes \<Rightarrow> py_exception + PIL_Image"
  str_lax :: "json \<Rightarrow> string option"
  int_lax :: "json \<Rightarrow> int option"


section \<open>Validation of the schemas (pydantic)\<close>

text \<open>
  \<^verbatim>\<open>Model(**data)\<close> looks every declared field up in \<open>data\<close>, in the order of declaration.
  A missing key is an error, a present one is validated against the type of the field;
  keys that are no field are ignored. The errors of all fields are collected, each with
  its location; the model is built only when there is none.
\<close>

definition with_loc :: "loc_item \<Rightarrow> line_errors + 'a \<Rightarrow> line_errors + 'a" where
  "with_loc l r = (case r of Inl es \<Rightarrow> Inl (map (\<lambda>(p, t). (l # p, t)) es) | Inr v \<Rightarrow> Inr v)"

definition errors_of :: "line_errors + 'a \<Rightarrow> line_errors" where
  "errors_of r = (case r of Inl es \<Rightarrow> es | Inr v \<Rightarrow> [])"

definition validate_field ::
  "(string, json) fmap \<Rightarrow> string \<Rightarrow> (json \<Rightarrow> line_errors + 'a) \<Rightarrow> line_errors + 'a" where
  "validate_field data k validator =
     (case fmlookup data k of
        None \<Rightarrow> Inl [([Field k], missing)]
      | Some v \<Rightarrow> with_loc (Field k) (validator v))"

definition validate_str :: "env \<Rightarrow> json \<Rightarrow> line_errors + string" where
  "validate_str env v =
     (case v of
        JString s \<Rightarrow> Inr s
      | _ \<Rightarrow> (case str_lax env v of Some s \<Rightarrow> Inr s | None \<Rightarrow> Inl [([], string_type)]))"

definition validate_int :: "env \<Rightarrow> json \<Rightarrow> line_errors + int" where
  "validate_int env v =
     (case v of
        JInt i \<Rightarrow> Inr i
      | _ \<Rightarrow> (case int_lax env v of Some i \<Rightarrow> Inr i | None \<Rightarrow> Inl [([], int_type)]))"

definition validate_literal :: "string list \<Rightarrow> json \<Rightarrow> line_errors + string" where
  "validate_literal allowed v =
     (case v of
        JString s \<Rightarrow> if s \<in> set allowed then Inr s else Inl [([], literal_error)]
      | _ \<Rightarrow> Inl [([], literal_error)])"

definition validate_list :: "(json \<Rightarrow> line_errors + 'a) \<Rightarrow> json \<Rightarrow> line_errors + 'a list" where
  "validate_list validator v =
     (case v of
        JArray xs \<Rightarrow>
          (let rs = map (\<lambda>(i, x). with_loc (Index i) (validator x)) (enumerate 0 xs)
           in if list_all (\<lambda>r. \<not> isl r) rs then Inr (map projr rs)
              else Inl (concat (map errors_of rs)))
      | _ \<Rightarrow> Inl [([], list_type)])"

definition validate_model ::
  "((string, json) fmap \<Rightarrow> line_errors + 'a) \<Rightarrow> json \<Rightarrow> line_errors + 'a" where
  "validate_model init v = (case v of JObject data \<Rightarrow> init data | _ \<Rightarrow> Inl [([], model_type)])"

definition Vehicle_validate :: "env \<Rightarrow> (string, json) fmap \<Rightarrow> line_errors + Vehicle" where
  "Vehicle_validate env data =
     (let r1 = validate_field data ''make'' (validate_str env);
          r2 = validate_field data ''model'' (validate_str env);
          r3 = validate_field data ''year'' (validate_int env)
      in case (r1, r2, r3) of
           (Inr a, Inr b, Inr c) \<Rightarrow> Inr \<lparr>make' = a, model = b, year = c\<rparr>
         | _ \<Rightarrow> Inl (errors_of r1 @ errors_of r2 @ errors_of r3))"

definition Problem_validate :: "env \<Rightarrow> (string, json) fmap \<Rightarrow> line_errors + Problem" where
  "Problem_validate env data =
     (let r1 = validate_field data ''name'' (validate_str env);
          r2 = validate_field data ''description'' (validate_str env)
      in case (r1, r2) of
           (Inr a, Inr b) \<Rightarrow> Inr \<lparr>name = a, description = b\<rparr>
         | _ \<Rightarrow> Inl (errors_of r1 @ errors_of r2))"

definition Severity_validate :: "env \<Rightarrow> (string, json) fmap \<Rightarrow> line_errors + Severity" where
  "Severity_validate env data =
     (let r1 = validate_field data ''level'' (validate_literal Severity_level_literals);
          r2 = validate_field data ''message'' (validate_str env)
      in case (r1, r2) of
           (Inr a, Inr b) \<Rightarrow> Inr \<lparr>level = a, message = b\<rparr>
         | _ \<Rightarrow> Inl (errors_of r1 @ errors_of r2))"

definition EstimatedCost_validate ::
  "env \<Rightarrow> (string, json) fmap \<Rightarrow> line_errors + EstimatedCost" where
  "EstimatedCost_validate env data =
     (let r1 = validate_field data ''range'' (validate_str env);
          r2 = validate_field data ''disclaimer'' (validate_str env)
      in case (r1, r2) of
           (Inr a, Inr b) \<Rightarrow> Inr \<lparr>range' = a, disclaimer = b\<rparr>
         | _ \<Rightarrow> Inl (errors_of r1 @ errors_of r2))"

definition DiagnosticReportResponse_validate ::
  "env \<Rightarrow> (string, json) fmap \<Rightarrow> line_errors + DiagnosticReportResponse" where
  "DiagnosticReportResponse_validate env data =
     (let r1 = validate_field data ''potential_problems''
                 (validate_list (validate_model (Problem_validate env)));
          r2 = validate_field data ''severity'' (validate_model (Severity_validate env));
          r3 = validate_field data ''next_steps'' (validate_list (validate_str env));
          r4 = validate_field data ''estimated_cost''
                 (validate_model (EstimatedCost_validate env));
          r5 = validate_field data ''disclaimers'' (validate_list (validate_str env))
      in case (r1, r2, r3, r4, r5) of
           (Inr a, Inr b, Inr c, Inr d, Inr e) \<Rightarrow>
             Inr \<lparr>potential_problems = a, severity = b, next_steps = c,
                  estimated_cost = d, disclaimers = e\<rparr>
         | _ \<Rightarrow> Inl (errors_of r1 @ errors_of r2 @ errors_of r3 @ errors_of r4 @ errors_of r5))"

text \<open>
  \<^verbatim>\<open>Model(**llm_result)\<close> as the handlers write it: unpacking with \<^verbatim>\<open>**\<close> needs a mapping
  and raises \<^verbatim>\<open>TypeError\<close> on anything else; a failed validation raises
  \<^verbatim>\<open>ValidationError\<close>.
\<close>

definition construct ::
  "((string, json) fmap \<Rightarrow> line_errors + 'a) \<Rightarrow> json \<Rightarrow> py_exception + 'a" where
  "construct init llm_result =
     (case llm_result of
        JObject data \<Rightarrow> (case init data of Inl es \<Rightarrow> Inl (ValidationError es) | Inr m \<Rightarrow> Inr m)
      | _ \<Rightarrow> Inl TypeError)"

text \<open>The JSON that a returned model is serialised to: its fields, by name.\<close>

definition Vehicle_dump :: "Vehicle \<Rightarrow> json" where
  "Vehicle_dump v =
     JObject (fmap_of_list
       [(''make'', JString (make' v)), (''model'', JString (model v)), (''year'', JInt (year v))])"

definition Problem_dump :: "Problem \<Rightarrow> json" where
  "Problem_dump p =
     JObject (fmap_of_list
       [(''name'', JString (name p)), (''description'', JString (description p))])"

definition Severity_dump :: "Severity \<Rightarrow> json" where
  "Severity_dump s =
     JObject (fmap_of_list [(''level'', JString (level s)), (''message'', JString (message s))])"

definition EstimatedCost_dump :: "EstimatedCost \<Rightarrow> json" where
  "EstimatedCost_dump c =
     JObject (fmap_of_list
       [(''range'', JString (range' c)), (''disclaimer'', JString (disclaimer c))])"

definition DiagnosticReportResponse_dump :: "DiagnosticReportResponse \<Rightarrow> json" where
  "DiagnosticReportResponse_dump r =
     JObject (fmap_of_list
       [(''potential_problems'', JArray (map Problem_dump (potential_problems r))),
        (''severity'', Severity_dump (severity r)),
        (''next_steps'', JArray (map JString (next_steps r))),
        (''estimated_cost'', EstimatedCost_dump (estimated_cost r)),
        (''disclaimers'', JArray (map JString (disclaimers r)))])"

section \<open>llm_client.py\<close>

text \<open>
  \<^verbatim>\<open>raw_json = response.text.strip().replace("```json", "").replace("```", "").strip()\<close>,
  the value handed to \<^verbatim>\<open>json.loads\<close>.
\<close>

definition raw_json :: "string \<Rightarrow> string" where
  "raw_json t = strip (replace ''```'' '''' (replace ''```json'' '''' (strip t)))"

text \<open>
  The body of the \<^verbatim>\<open>try\<close> that ends each of the four functions: reading
  \<^verbatim>\<open>response.text\<close> and parsing it.
\<close>

definition try_loads :: "env \<Rightarrow> response \<Rightarrow> py_exception + json" where
  "try_loads env response =
     (case text' response of
        None \<Rightarrow> Inl AttributeError
      | Some t \<Rightarrow> loads env (raw_json t))"

text \<open>The dict \<^verbatim>\<open>{"error": msg}\<close> that a function returns from its \<^verbatim>\<open>except\<close> clause.\<close>

definition error_dict :: "string \<Rightarrow> json" where
  "error_dict msg = JObject (fmap_of_list [(''error'', JString msg)])"

definition diagnostic_failed :: string where
  "diagnostic_failed =
     ''The diagnostic assistant failed to generate a valid response. Please try again.''"

definition image_diagnostic_failed :: string where
  "image_diagnostic_failed =
     ''The diagnostic assistant failed to generate a valid response from the image.''"

definition vin_failed :: string where
  "vin_failed =
     ''Could not identify the vehicle from the provided image. Please try again or enter manually.''"

definition text_failed :: string where
  "text_failed = ''Could not identify the vehicle from the provided text. Please try again.''"

text \<open>
  The prompts: \<^verbatim>\<open>user_prompt\<close> of \<^verbatim>\<open>get_diagnostic_from_llm\<close> and \<^verbatim>\<open>full_prompt\<close> of
  \<^verbatim>\<open>get_image_diagnostic_from_llm\<close>.
\<close>

definition conversation_prompt :: "Vehicle \<Rightarrow> HistoryTurn list \<Rightarrow> string" where
  "conversation_prompt vehicle' history' =
     (let chat_history_str =
            join ''\<newline>'' (map (\<lambda>turn. role turn @ '': '' @ content turn) history')
      in ''\<newline>    Vehicle: '' @ str_int (year vehicle') @ '' '' @ make' vehicle' @ '' ''
           @ model vehicle'
           @ ''\<newline>    Conversation History:\<newline>    '' @ chat_history_str
           @ ''\<newline>    '')"

definition image_prompt :: "Vehicle \<Rightarrow> string \<Rightarrow> PIL_Image \<Rightarrow> part list" where
  "image_prompt vehicle' user_prompt image' =
     [TextPart (''Vehicle: '' @ str_int (year vehicle') @ '' '' @ make' vehicle'
                  @ '' '' @ model vehicle' @ ''\<newline>''),
      TextPart (''User's question: '' @ user_prompt @ ''\<newline>\<newline>''),
      TextPart (''Analyze the attached image and the user's question, ''
                  @ ''then provide a full diagnostic report in the required JSON format.''),
      ImagePart image']"

text \<open>
  Every function returns what it printed and either the value it returns or the
  exception that leaves it.
\<close>

definition get_diagnostic_from_llm ::
  "env \<Rightarrow> Vehicle \<Rightarrow> HistoryTurn list \<Rightarrow> printed list \<times> (py_exception + json)" where
  "get_diagnostic_from_llm env vehicle' history' =
     (let user_prompt = conversation_prompt vehicle' history';
          out = [Print ''--- Sending prompt to LLM ---'']
      in case generate_content env SYSTEM_PROMPT (Text user_prompt) of
           Inl e \<Rightarrow> (out, Inl e)
         | Inr response \<Rightarrow>
             (let out = out @ [Print ''--- Received response from LLM ---'']
              in case try_loads env response of
                   Inr v \<Rightarrow> (out, Inr v)
                 | Inl e \<Rightarrow>
                     if e = JSONDecodeError \<or> e = AttributeError
                     then (out @ [PrintExc ''Error parsing LLM response: '' e],
                           Inr (error_dict diagnostic_failed))
                     else (out, Inl e)))"

definition get_image_diagnostic_from_llm ::
  "env \<Rightarrow> Vehicle \<Rightarrow> string \<Rightarrow> bytes \<Rightarrow> printed list \<times> (py_exception + json)" where
  "get_image_diagnostic_from_llm env vehicle' user_prompt image_bytes =
     (case Image_open env image_bytes of
        Inl e \<Rightarrow> ([], Inl e)
      | Inr image' \<Rightarrow>
          (let full_prompt = image_prompt vehicle' user_prompt image';
               out = [Print ''--- Sending image and prompt to LLM ---'']
           in case generate_content env SYSTEM_PROMPT (Parts full_prompt) of
                Inl e \<Rightarrow> (out, Inl e)
              | Inr response \<Rightarrow>
                  (let out = out @ [Print ''--- Received response from LLM ---'']
                   in case try_loads env response of
                        Inr v \<Rightarrow> (out, Inr v)
                      | Inl e \<Rightarrow>
                          if e = JSONDecodeError \<or> e = AttributeError
                          then (out @ [PrintExc ''Error parsing LLM response: '' e],
                                Inr (error_dict image_diagnostic_failed))
                          else (out, Inl e))))"

definition get_vehicle_info_from_image ::
  "env \<Rightarrow> bytes \<Rightarrow> printed list \<times> (py_exception + json)" where
  "get_vehicle_info_from_image env image_bytes =
     (case Image_open env image_bytes of
        Inl e \<Rightarrow> ([], Inl e)
      | Inr image' \<Rightarrow>
          (let out = [Print ''--- Sending VIN image to LLM ---'']
           in case generate_content env vin_system_prompt (Image image') of
                Inl e \<Rightarrow> (out, Inl e)
              | Inr response \<Rightarrow>
                  (let out = out @ [Print ''--- Received VIN response from LLM ---'']
                   in case try_loads env response of
                        Inr v \<Rightarrow> (out, Inr v)
                      | Inl e \<Rightarrow>
                          if e = JSONDecodeError \<or> e = AttributeError
                          then (out @ [PrintExc ''Error parsing LLM response for VIN: '' e],
                                Inr (error_dict vin_failed))
                          else (out, Inl e))))"

definition get_vehicle_info_from_text ::
  "env \<Rightarrow> string \<Rightarrow> printed list \<times> (py_exception + json)" where
  "get_vehicle_info_from_text env user_text =
     (let out = [Print (''--- Sending vehicle text to LLM: '' @ [CHR 0x27] @ user_text
                         @ [CHR 0x27] @ '' ---'')]
      in case generate_content env text_system_prompt (Text user_text) of
           Inl e \<Rightarrow> (out, Inl e)
         | Inr response \<Rightarrow>
             (let out = out @ [Print ''--- Received vehicle text response from LLM ---'']
              in case try_loads env response of
                   Inr v \<Rightarrow> (out, Inr v)
                 | Inl e \<Rightarrow>
                     if e = JSONDecodeError \<or> e = AttributeError
                     then (out @ [PrintExc ''Error parsing LLM response for text: '' e],
                           Inr (error_dict text_failed))
                     else (out, Inl e)))"


section \<open>main.py\<close>

text \<open>
  \<^verbatim>\<open>key in x\<close> on a value of \<^verbatim>\<open>json.loads\<close>: a key of a dict, an element of a list, a
  substring of a str; \<^verbatim>\<open>TypeError\<close> on \<^verbatim>\<open>None\<close>, a bool or a number.
\<close>

definition py_in :: "string \<Rightarrow> json \<Rightarrow> py_exception + bool" where
  "py_in key x =
     (case x of
        JObject data \<Rightarrow> Inr (key |\<in>| fmdom data)
      | JArray xs \<Rightarrow> Inr (JString key \<in> set xs)
      | JString s \<Rightarrow> Inr (str_contains key s)
      | _ \<Rightarrow> Inl TypeError)"

text \<open>
  \<^verbatim>\<open>x[key]\<close> with a str key: the value of a dict (\<^verbatim>\<open>KeyError\<close> when absent);
  \<^verbatim>\<open>TypeError\<close> on everything else.
\<close>

definition py_getitem :: "json \<Rightarrow> string \<Rightarrow> py_exception + json" where
  "py_getitem x key =
     (case x of
        JObject data \<Rightarrow> (case fmlookup data key of None \<Rightarrow> Inl KeyError | Some v \<Rightarrow> Inr v)
      | _ \<Rightarrow> Inl TypeError)"

definition malformed_report :: string where
  "malformed_report = ''Diagnostic assistant returned a malformed report. Please try again.''"

definition malformed_vehicle :: string where
  "malformed_vehicle = ''The assistant returned malformed vehicle data.''"

text \<open>
  A handler returns what was printed and either the model it returns (the response with
  status 200) or the exception that leaves it; \<open>HTTPException status detail\<close> is the
  error response.
\<close>

definition diagnose_from_conversation ::
  "env \<Rightarrow> ConversationTurnRequest \<Rightarrow> printed list \<times> (py_exception + DiagnosticReportResponse)"
  where
  "diagnose_from_conversation env request =
     (case get_diagnostic_from_llm env (vehicle request) (history request) of
        (out, Inl e) \<Rightarrow> (out, Inl e)
      | (out, Inr llm_result) \<Rightarrow>
          (case py_in ''error'' llm_result of
             Inl e \<Rightarrow> (out, Inl e)
           | Inr True \<Rightarrow>
               (case py_getitem llm_result ''error'' of
                  Inl e \<Rightarrow> (out, Inl e)
                | Inr detail \<Rightarrow> (out, Inl (HTTPException 500 detail)))
           | Inr False \<Rightarrow>
               (case construct (DiagnosticReportResponse_validate env) llm_result of
                  Inr validated_report \<Rightarrow> (out, Inr validated_report)
                | Inl e \<Rightarrow>
                    (out @ [PrintExc ''Failed to validate LLM response: '' e],
                     Inl (HTTPException 500 (JString malformed_report))))))"

definition diagnose_from_image ::
  "env \<Rightarrow> string \<Rightarrow> string \<Rightarrow> int \<Rightarrow> string \<Rightarrow> bytes
     \<Rightarrow> printed list \<times> (py_exception + DiagnosticReportResponse)" where
  "diagnose_from_image env make_form model_form year_form prompt file =
     (let image_bytes = file;
          vehicle' = \<lparr>make' = make_form, model = model_form, year = year_form\<rparr>
      in case get_image_diagnostic_from_llm env vehicle' prompt image_bytes of
           (out, Inl e) \<Rightarrow> (out, Inl e)
         | (out, Inr llm_result) \<Rightarrow>
             (case py_in ''error'' llm_result of
                Inl e \<Rightarrow> (out, Inl e)
              | Inr True \<Rightarrow>
                  (case py_getitem llm_result ''error'' of
                     Inl e \<Rightarrow> (out, Inl e)
                   | Inr detail \<Rightarrow> (out, Inl (HTTPException 500 detail)))
              | Inr False \<Rightarrow>
                  (case construct (DiagnosticReportResponse_validate env) llm_result of
                     Inr validated_report \<Rightarrow> (out, Inr validated_report)
                   | Inl e \<Rightarrow>
                       (out @ [PrintExc ''Failed to validate LLM response: '' e],
                        Inl (HTTPException 500 (JString malformed_report))))))"

definition identify_vehicle_from_image ::
  "env \<Rightarrow> bytes \<Rightarrow> printed list \<times> (py_exception + Vehicle)" where
  "identify_vehicle_from_image env file =
     (let image_bytes = file
      in case get_vehicle_info_from_image env image_bytes of
           (out, Inl e) \<Rightarrow> (out, Inl e)
         | (out, Inr llm_result) \<Rightarrow>
             (case py_in ''error'' llm_result of
                Inl e \<Rightarrow> (out, Inl e)
              | Inr True \<Rightarrow>
                  (case py_getitem llm_result ''error'' of
                     Inl e \<Rightarrow> (out, Inl e)
                   | Inr detail \<Rightarrow> (out, Inl (HTTPException 500 detail)))
              | Inr False \<Rightarrow>
                  (case construct (Vehicle_validate env) llm_result of
                     Inr validated_vehicle \<Rightarrow> (out, Inr validated_vehicle)
                   | Inl e \<Rightarrow>
                       (out @ [PrintExc ''Failed to validate vehicle response: '' e],
                        Inl (HTTPException 500 (JString malformed_vehicle))))))"

definition identify_vehicle_from_text ::
  "env \<Rightarrow> VehicleTextRequest \<Rightarrow> printed list \<times> (py_exception + Vehicle)" where
  "identify_vehicle_from_text env request =
     (case get_vehicle_info_from_text env (query request) of
        (out, Inl e) \<Rightarrow> (out, Inl e)
      | (out, Inr llm_result) \<Rightarrow>
          (case py_in ''error'' llm_result of
             Inl e \<Rightarrow> (out, Inl e)
           | Inr True \<Rightarrow>
               (case py_getitem llm_result ''error'' of
                  Inl e \<Rightarrow> (out, Inl e)
                | Inr detail \<Rightarrow> (out, Inl (HTTPException 500 detail)))
           | Inr False \<Rightarrow>
               (case construct (Vehicle_validate env) llm_result of
                  Inr validated_vehicle \<Rightarrow> (out, Inr validated_vehicle)
                | Inl e \<Rightarrow>
                    (out @ [PrintExc ''Failed to validate vehicle response: '' e],
                     Inl (HTTPException 500 (JString malformed_vehicle))))))"

section \<open>Notions used by the properties\<close>

text \<open>The markdown fence around a payload, as a language model writes it.\<close>

definition fenced :: "string \<Rightarrow> string" where
  "fenced p = ''```json\<newline>'' @ p @ ''\<newline>```''"


text \<open>
  The DiagnosticReport shape of the specification, on a parsed JSON object: exactly the
  documented fields, each of the documented type, the level one of the three literals.
\<close>

definition is_string :: "json \<Rightarrow> bool" where
  "is_string v = (case v of JString s \<Rightarrow> True | _ \<Rightarrow> False)"

definition string_at :: "(string, json) fmap \<Rightarrow> string \<Rightarrow> bool" where
  "string_at data k = (case fmlookup data k of Some v \<Rightarrow> is_string v | None \<Rightarrow> False)"

definition strings_at :: "(string, json) fmap \<Rightarrow> string \<Rightarrow> bool" where
  "strings_at data k =
     (case fmlookup data k of Some (JArray xs) \<Rightarrow> list_all is_string xs | _ \<Rightarrow> False)"

definition Problem_shaped :: "json \<Rightarrow> bool" where
  "Problem_shaped v =
     (case v of
        JObject data \<Rightarrow>
          fmdom data = fset_of_list [''name'', ''description'']
          \<and> string_at data ''name'' \<and> string_at data ''description''
      | _ \<Rightarrow> False)"

definition Severity_shaped :: "json \<Rightarrow> bool" where
  "Severity_shaped v =
     (case v of
        JObject data \<Rightarrow>
          fmdom data = fset_of_list [''level'', ''message'']
          \<and> (case fmlookup data ''level'' of
                Some (JString l) \<Rightarrow> l \<in> set [''CRITICAL'', ''CAUTION'', ''INFORMATION'']
              | _ \<Rightarrow> False)
          \<and> string_at data ''message''
      | _ \<Rightarrow> False)"

definition EstimatedCost_shaped :: "json \<Rightarrow> bool" where
  "EstimatedCost_shaped v =
     (case v of
        JObject data \<Rightarrow>
          fmdom data = fset_of_list [''range'', ''disclaimer'']
          \<and> string_at data ''range'' \<and> string_at data ''disclaimer''
      | _ \<Rightarrow> False)"

definition DiagnosticReport_shaped :: "(string, json) fmap \<Rightarrow> bool" where
  "DiagnosticReport_shaped data \<longleftrightarrow>
     fmdom data =
       fset_of_list [''potential_problems'', ''severity'', ''next_steps'', ''estimated_cost'',
                     ''disclaimers'']
     \<and> (case fmlookup data ''potential_problems'' of
           Some (JArray xs) \<Rightarrow> list_all Problem_shaped xs
         | _ \<Rightarrow> False)
     \<and> (case fmlookup data ''severity'' of Some v \<Rightarrow> Severity_shaped v | None \<Rightarrow> False)
     \<and> strings_at data ''next_steps''
     \<and> (case fmlookup data ''estimated_cost'' of
           Some v \<Rightarrow> EstimatedCost_shaped v
         | None \<Rightarrow> False)
     \<and> strings_at data ''disclaimers''"

text \<open>
  The violations of a value against a declared type, as the specification counts them:
  one entry, location and kind, for every missing field, for every value of a wrong type
  and for every value outside its set of literals, in the order in which the fields are
  declared and the elements of a list stand. A value has the wrong type for a \<^verbatim>\<open>str\<close>
  (\<^verbatim>\<open>int\<close>) field when it is no str (no int) and pydantic does not convert it.
\<close>

definition at_loc :: "loc_item \<Rightarrow> line_errors \<Rightarrow> line_errors" where
  "at_loc l es = map (\<lambda>(p, t). (l # p, t)) es"

definition is_int :: "json \<Rightarrow> bool" where
  "is_int v = (case v of JInt i \<Rightarrow> True | _ \<Rightarrow> False)"

definition str_violations :: "env \<Rightarrow> json \<Rightarrow> line_errors" where
  "str_violations env v = (if is_string v \<or> str_lax env v \<noteq> None then [] else [([], string_type)])"

definition int_violations :: "env \<Rightarrow> json \<Rightarrow> line_errors" where
  "int_violations env v = (if is_int v \<or> int_lax env v \<noteq> None then [] else [([], int_type)])"

definition literal_violations :: "string list \<Rightarrow> json \<Rightarrow> line_errors" where
  "literal_violations allowed v =
     (if v \<in> set (map JString allowed) then [] else [([], literal_error)])"

definition list_violations :: "(json \<Rightarrow> line_errors) \<Rightarrow> json \<Rightarrow> line_errors" where
  "list_violations item v =
     (case v of
        JArray xs \<Rightarrow> concat (map (\<lambda>(i, x). at_loc (Index i) (item x)) (enumerate 0 xs))
      | _ \<Rightarrow> [([], list_type)])"

definition model_violations ::
  "((string, json) fmap \<Rightarrow> line_errors) \<Rightarrow> json \<Rightarrow> line_errors" where
  "model_violations of_fields v =
     (case v of JObject data \<Rightarrow> of_fields data | _ \<Rightarrow> [([], model_type)])"

definition field_violations ::
  "(string, json) fmap \<Rightarrow> string \<Rightarrow> (json \<Rightarrow> line_errors) \<Rightarrow> line_errors" where
  "field_violations data k value_violations =
     (case fmlookup data k of
        None \<Rightarrow> [([Field k], missing)]
      | Some v \<Rightarrow> at_loc (Field k) (value_violations v))"

definition Vehicle_violations :: "env \<Rightarrow> (string, json) fmap \<Rightarrow> line_errors" where
  "Vehicle_violations env data =
     field_violations data ''make'' (str_violations env)
     @ field_violations data ''model'' (str_violations env)
     @ field_violations data ''year'' (int_violations env)"

definition Problem_violations :: "env \<Rightarrow> (string, json) fmap \<Rightarrow> line_errors" where
  "Problem_violations env data =
     field_violations data ''name'' (str_violations env)
     @ field_violations data ''description'' (str_violations env)"

definition Severity_violations :: "env \<Rightarrow> (string, json) fmap \<Rightarrow> line_errors" where
  "Severity_violations env data =
     field_violations data ''level''
       (literal_violations [''CRITICAL'', ''CAUTION'', ''INFORMATION''])
     @ field_violations data ''message'' (str_violations env)"

definition EstimatedCost_violations :: "env \<Rightarrow> (string, json) fmap \<Rightarrow> line_errors" where
  "EstimatedCost_violations env data =
     field_violations data ''range'' (str_violations env)
     @ field_violations data ''disclaimer'' (str_violations env)"

definition DiagnosticReport_violations :: "env \<Rightarrow> (string, json) fmap \<Rightarrow> line_errors" where
  "DiagnosticReport_violations env data =
     field_violations data ''potential_problems''
       (list_violations (model_violations (Problem_violations env)))
     @ field_violations data ''severity'' (model_violations (Severity_violations env))
     @ field_violations data ''next_steps'' (list_violations (str_violations env))
     @ field_violations data ''estimated_cost'' (model_violations (EstimatedCost_violations env))
     @ field_violations data ''disclaimers'' (list_violations (str_violations env))"

text \<open>
  What the four handlers do with the result \<open>g\<close> of their gateway call; they differ in the
  model they build, in the line they print and in the message of the malformed case.
\<close>

definition after_gateway ::
  "((string, json) fmap \<Rightarrow> line_errors + 'a) \<Rightarrow> string \<Rightarrow> string
     \<Rightarrow> printed list \<times> (py_exception + json) \<Rightarrow> printed list \<times> (py_exception + 'a)" where
  "after_gateway init failed_to_validate malformed g =
     (case g of
        (out, Inl e) \<Rightarrow> (out, Inl e)
      | (out, Inr llm_result) \<Rightarrow>
          (case py_in ''error'' llm_result of
             Inl e \<Rightarrow> (out, Inl e)
           | Inr True \<Rightarrow>
               (case py_getitem llm_result ''error'' of
                  Inl e \<Rightarrow> (out, Inl e)
                | Inr detail \<Rightarrow> (out, Inl (HTTPException 500 detail)))
           | Inr False \<Rightarrow>
               (case construct init llm_result of
                  Inr validated \<Rightarrow> (out, Inr validated)
                | Inl e \<Rightarrow>
                    (out @ [PrintExc failed_to_validate e],
                     Inl (HTTPException 500 (JString malformed))))))"


section \<open>A canned environment\<close>

text \<open>
  An environment for running the program on concrete inputs: the language model answers
  every request with the same reply, \<^verbatim>\<open>json.loads\<close> is given by its values on the texts
  listed in a table (and rejects every other text), every upload opens as an image, and
  pydantic converts nothing.
\<close>

definition canned_env :: "string option \<Rightarrow> (string \<times> json) list \<Rightarrow> env" where
  "canned_env reply table =
     \<lparr>generate_content = (\<lambda>i c. Inr \<lparr>text' = reply\<rparr>),
      loads = (\<lambda>s. case map_of table s of Some v \<Rightarrow> Inr v | None \<Rightarrow> Inl JSONDecodeError),
      Image_open = (\<lambda>b. Inr (PIL_Image b)),
      str_lax = (\<lambda>v. None),
      int_lax = (\<lambda>v. None)\<rparr>"

text \<open>
  The canned environment in which the language model replies the text \<open>reply\<close> and
  \<^verbatim>\<open>json.loads\<close> parses that text to \<open>v\<close>.
\<close>

definition replies :: "string \<Rightarrow> json \<Rightarrow> env" where
  "replies reply v = canned_env (Some reply) [(reply, v)]"

text \<open>The values of \<^verbatim>\<open>{"foo":"bar"}\<close> and of \<^verbatim>\<open>{"error":"boom"}\<close>.\<close>

definition foo_bar :: json where
  "foo_bar = JObject (fmap_of_list [(''foo'', JString ''bar'')])"

definition boom :: json where
  "boom = JObject (fmap_of_list [(''error'', JString ''boom'')])"

text \<open>The two end-to-end scenarios of the specification.\<close>

definition honda_request :: ConversationTurnRequest where
  "honda_request =
     \<lparr>vehicle = \<lparr>make' = ''Honda'', model = ''Civic'', year = 2015\<rparr>,
      history = [\<lparr>role = ''user'', content = ''car shakes at idle''\<rparr>]\<rparr>"

definition motor_mount_fields :: "(string \<times> json) list" where
  "motor_mount_fields =
     [(''potential_problems'',
         JArray [JObject (fmap_of_list [(''name'', JString ''Worn motor mount''),
                                        (''description'', JString ''...'')])]),
      (''severity'',
         JObject (fmap_of_list [(''level'', JString ''CAUTION''), (''message'', JString ''...'')])),
      (''next_steps'', JArray [JString ''Inspect mounts'']),
      (''estimated_cost'',
         JObject (fmap_of_list [(''range'', JString ''$150-$400''),
                                (''disclaimer'', JString ''...'')])),
      (''disclaimers'', JArray [])]"

definition motor_mount_report :: DiagnosticReportResponse where
  "motor_mount_report =
     \<lparr>potential_problems = [\<lparr>name = ''Worn motor mount'', description = ''...''\<rparr>],
      severity = \<lparr>level = ''CAUTION'', message = ''...''\<rparr>,
      next_steps = [''Inspect mounts''],
      estimated_cost = \<lparr>range' = ''$150-$400'', disclaimer = ''...''\<rparr>,
      disclaimers = []\<rparr>"


text \<open>The report of the first scenario as the text that the language model replies.\<close>

definition motor_mount_text :: string where
  "motor_mount_text =
     ''{\"potential_problems\":[{\"name\":\"Worn motor mount\",\"description\":\"...\"}],''
     @ ''\"severity\":{\"level\":\"CAUTION\",\"message\":\"...\"},''
     @ ''\"next_steps\":[\"Inspect mounts\"],''
     @ ''\"estimated_cost\":{\"range\":\"$150-$400\",\"disclaimer\":\"...\"},''
     @ ''\"disclaimers\":[]}''"

text \<open>The same report with an \<^verbatim>\<open>"error"\<close> entry added in front, as value and as text.\<close>

definition quota_fields :: "(string \<times> json) list" where
  "quota_fields = (''error'', JString ''quota exceeded'') # motor_mount_fields"

definition quota_text :: string where
  "quota_text = ''{\"error\":\"quota exceeded\",'' @ tl motor_mount_text"

text \<open>
  A report with three violations of different kinds and two fields missing:
  \<^verbatim>\<open>{"potential_problems": "none", "severity": {"level": "LOW", "message": "..."}}\<close>.
\<close>

definition low_severity :: "(string, json) fmap" where
  "low_severity = fmap_of_list [(''level'', JString ''LOW''), (''message'', JString ''...'')]"

definition broken_report :: "(string, json) fmap" where
  "broken_report =
     fmap_of_list [(''potential_problems'', JString ''none''), (''severity'', JObject low_severity)]"

text \<open>
  A vehicle with two values of a wrong type and a field missing:
  \<^verbatim>\<open>{"make": 5, "year": "x"}\<close>.
\<close>

definition odd_vehicle :: "(string, json) fmap" where
  "odd_vehicle = fmap_of_list [(''make'', JInt 5), (''year'', JString ''x'')]"

text \<open>The query of the text-identification scenario.\<close>

definition camry_request :: VehicleTextRequest where
  "camry_request = \<lparr>query = ''I drive a red 2018 Toyota Camry''\<rparr>"





section \<open>Properties of the string operations\<close>

lemma str_contains_sublist: "str_contains sub s = sublist sub s"
  by (induction s) (auto simp: sublist_Cons_right)

lemma dropWhile_keeps_last:
  "xs \<noteq> [] \<Longrightarrow> \<not> P (last xs) \<Longrightarrow> dropWhile P xs \<noteq> [] \<and> last (dropWhile P xs) = last xs"
  by (induction xs) (auto split: if_splits)

lemma dropWhile_hd_fix: "xs = [] \<or> \<not> P (hd xs) \<Longrightarrow> dropWhile P xs = xs"
  by (cases xs) auto

lemma hd_dropWhile_not: "dropWhile P xs = [] \<or> \<not> P (hd (dropWhile P xs))"
  by (metis hd_dropWhile)

lemma strip_ends: "strip s = [] \<or> (\<not> isspace (hd (strip s)) \<and> \<not> isspace (last (strip s)))"
proof (cases "dropWhile isspace s = []")
  case True
  then show ?thesis by (simp add: strip_def del: dropWhile_eq_Nil_conv)
next
  case False
  define v where "v = dropWhile isspace s"
  have v: "v \<noteq> []" "\<not> isspace (hd v)" using False hd_dropWhile_not[of isspace s] by (auto simp: v_def)
  have rv: "rev v \<noteq> []" "\<not> isspace (last (rev v))" using v by (auto simp: last_rev)
  define u where "u = dropWhile isspace (rev v)"
  have u: "u \<noteq> []" "last u = hd v" using dropWhile_keeps_last[of "rev v" isspace] rv v by (auto simp: u_def last_rev)
  have hu: "\<not> isspace (hd u)" using u(1) hd_dropWhile_not[of isspace "rev v"] by (auto simp: u_def)
  have "strip s = rev u" by (simp add: strip_def u_def v_def)
  then show ?thesis using u hu v by (simp add: hd_rev last_rev)
qed

lemma strip_fix: "s = [] \<or> (\<not> isspace (hd s) \<and> \<not> isspace (last s)) \<Longrightarrow> strip s = s"
proof (cases "s = []")
  case True then show ?thesis by (simp add: strip_def)
next
  case False
  assume "s = [] \<or> (\<not> isspace (hd s) \<and> \<not> isspace (last s))"
  then have h: "\<not> isspace (hd s)" "\<not> isspace (last s)" using False by auto
  have 1: "dropWhile isspace s = s" using h(1) False by (simp add: dropWhile_hd_fix)
  have 2: "dropWhile isspace (rev s) = rev s" using h(2) False by (simp add: dropWhile_hd_fix hd_rev)
  show ?thesis by (simp add: strip_def 1 2)
qed

lemma strip_strip: "strip (strip s) = strip s"
  by (rule strip_fix) (rule strip_ends)

lemma replace_absent: "old \<noteq> [] \<Longrightarrow> \<not> str_contains old s \<Longrightarrow> replace old new s = s"
  by (induction s) (auto split: list.splits)

lemma sublist_strip: "sublist (strip s) s"
proof -
  have "sublist (rev (dropWhile isspace (rev (dropWhile isspace s)))) (dropWhile isspace s)"
    by (metis sublist_rev_left  suffix_dropWhile suffix_imp_sublist sublist_rev_right rev_rev_ident)
  moreover have "sublist (dropWhile isspace s) s"
    by (simp add: suffix_dropWhile suffix_imp_sublist)
  ultimately show ?thesis unfolding strip_def by (rule sublist_order.order.trans)
qed

lemma replace_match:
  "prefix (o1 # os) (c # cs) \<Longrightarrow>
   replace (o1 # os) new (c # cs) = new @ replace (o1 # os) new (drop (length os) cs)"
  by simp

lemma replace_nomatch:
  "old \<noteq> [] \<Longrightarrow> \<not> prefix old (c # cs) \<Longrightarrow> replace old new (c # cs) = c # replace old new cs"
  by (cases old) auto

lemma no_double_tick_replace:
  assumes "\<not> prefix ''``'' cs"
  shows "\<not> prefix ''``'' (replace ''```'' '''' cs)"
proof (cases cs)
  case Nil then show ?thesis by simp
next
  case (Cons a ds)
  then show ?thesis using assms by (cases ds) auto
qed

lemma no_fence_replace_aux:
  "old = ''```'' \<Longrightarrow> new = '''' \<Longrightarrow> \<not> str_contains old (replace old new s)"
proof (induction old new s rule: replace.induct)
  case (1 old new)
  then show ?case by simp
next
  case (2 old new c cs)
  note old = \<open>old = ''```''\<close> and new = \<open>new = ''''\<close>
  show ?case
  proof (cases "prefix old (c # cs)")
    case True
    have "replace old new (c # cs) = new @ replace old new (drop (length ''``'') cs)"
      using True unfolding old by (rule replace_match)
    moreover have "\<not> str_contains old (replace old new (drop (length ''``'') cs))"
      using "2.IH"(2)[of "CHR 0x60" "''``''"] True old new by blast
    ultimately show ?thesis using new by simp
  next
    case False
    have ih: "\<not> str_contains old (replace old new cs)"
      using "2.IH"(3)[of "CHR 0x60" "''``''"] False old new by blast
    have "\<not> prefix ''```'' (c # replace ''```'' '''' cs)"
    proof (cases "c = CHR 0x60")
      case True
      then have "\<not> prefix ''``'' cs" using False old by simp
      then have "\<not> prefix ''``'' (replace ''```'' '''' cs)" by (rule no_double_tick_replace)
      then show ?thesis by simp
    next
      case False then show ?thesis by simp
    qed
    moreover have "replace old new (c # cs) = c # replace old new cs"
      using False old by (intro replace_nomatch) auto
    ultimately show ?thesis using ih old new by simp
  qed
qed

lemma no_fence_replace: "\<not> str_contains ''```'' (replace ''```'' '''' s)"
  by (rule no_fence_replace_aux) simp_all

lemma prefix_sep:
  assumes "c \<notin> set old"
  shows "prefix old (xs @ c # q) \<longleftrightarrow> prefix old xs"
proof
  assume "prefix old (xs @ c # q)"
  then consider "prefix old xs" | us where "old = xs @ us" "prefix us (c # q)"
    unfolding prefix_append by blast
  then show "prefix old xs"
  proof cases
    case 1 then show ?thesis .
  next
    case 2
    then show ?thesis using assms by (cases us) auto
  qed
next
  assume "prefix old xs"
  then show "prefix old (xs @ c # q)" by (rule prefix_prefix)
qed

lemma replace_sep:
  "old \<noteq> [] \<Longrightarrow> c \<notin> set old \<Longrightarrow>
   replace old new (p @ c # q) = replace old new p @ c # replace old new q"
proof (induction old new p rule: replace.induct)
  case (1 old new)
  then have np: "\<not> prefix old (c # q)" by (cases old) auto
  have "replace old new (c # q) = c # replace old new q"
    using "1.prems"(1) np by (rule replace_nomatch)
  then show ?case using "1.prems"(1) by (simp del: replace.simps(2))
next
  case (2 old new x xs)
  then obtain o1 os where old: "old = o1 # os" by (cases old) auto
  have pre: "prefix old (x # (xs @ c # q)) \<longleftrightarrow> prefix old (x # xs)"
    using prefix_sep[OF \<open>c \<notin> set old\<close>, of "x # xs" q] by simp
  show ?case
  proof (cases "prefix old (x # xs)")
    case True
    then have len: "length os \<le> length xs" using old by (auto dest: prefix_length_le)
    have ih: "replace old new (drop (length os) xs @ c # q)
          = replace old new (drop (length os) xs) @ c # replace old new q"
      using "2.IH"(2)[OF old True] "2.prems" by blast
    have m1: "replace old new (x # (xs @ c # q)) = new @ replace old new (drop (length os) (xs @ c # q))"
      using True pre unfolding old by (intro replace_match) blast
    have m2: "replace old new (x # xs) = new @ replace old new (drop (length os) xs)"
      using True unfolding old by (intro replace_match)
    have d: "drop (length os) (xs @ c # q) = drop (length os) xs @ c # q"
      using len by simp
    show ?thesis unfolding append_Cons m1 m2 d ih by simp
  next
    case False
    then have np: "\<not> prefix old (x # (xs @ c # q))" using pre by simp
    have m1: "replace old new (x # (xs @ c # q)) = x # replace old new (xs @ c # q)"
      using "2.prems"(1) np by (rule replace_nomatch)
    have m2: "replace old new (x # xs) = x # replace old new xs"
      using "2.prems"(1) False by (rule replace_nomatch)
    have ih: "replace old new (xs @ c # q) = replace old new xs @ c # replace old new q"
      using "2.IH"(3)[OF old False] "2.prems" by blast
    show ?thesis unfolding append_Cons m1 m2 ih by simp
  qed
qed

lemma replace_pad_left:
  "old \<noteq> [] \<Longrightarrow> \<forall>c\<in>set w. c \<notin> set old \<Longrightarrow> replace old new (w @ s) = w @ replace old new s"
proof (induction w)
  case Nil then show ?case by simp
next
  case (Cons c w)
  have "replace old new ([] @ c # (w @ s)) = replace old new [] @ c # replace old new (w @ s)"
    using Cons.prems by (intro replace_sep) auto
  then show ?case using Cons by simp
qed

lemma replace_pad_right:
  assumes "old \<noteq> []" "\<forall>c\<in>set w. c \<notin> set old"
  shows "replace old new (s @ w) = replace old new s @ w"
proof (cases w)
  case Nil then show ?thesis by simp
next
  case (Cons c w')
  have "replace old new (s @ c # w') = replace old new s @ c # replace old new w'"
    using assms Cons by (intro replace_sep) auto
  moreover have "replace old new (w' @ []) = w' @ replace old new []"
    using assms Cons by (intro replace_pad_left) auto
  ultimately show ?thesis using Cons assms by simp
qed

lemma strip_pad:
  assumes "\<forall>c\<in>set w1. isspace c" "\<forall>c\<in>set w2. isspace c"
  shows "strip (w1 @ s @ w2) = strip s"
proof -
  have 1: "dropWhile isspace (w1 @ s @ w2) = dropWhile isspace (s @ w2)"
    using assms(1) by (simp add: dropWhile_append2)
  show ?thesis
  proof (cases "\<forall>c\<in>set s. isspace c")
    case True
    then have e: "dropWhile isspace (s @ w2) = []" "dropWhile isspace s = []" using assms(2) by auto
    show ?thesis unfolding strip_def 1 e by (rule refl)
  next
    case False
    then obtain x where "x \<in> set s" "\<not> isspace x" by auto
    then have 2: "dropWhile isspace (s @ w2) = dropWhile isspace s @ w2"
      by (rule dropWhile_append1)
    have 3: "dropWhile isspace (rev w2 @ rev (dropWhile isspace s))
                   = dropWhile isspace (rev (dropWhile isspace s))"
      by (rule dropWhile_append2) (use assms(2) in auto)
    show ?thesis unfolding strip_def 1 2 rev_append 3 by (rule refl)
  qed
qed

lemma strip_decompose:
  "\<exists>w1 w2. s = w1 @ strip s @ w2 \<and> (\<forall>c\<in>set w1. isspace c) \<and> (\<forall>c\<in>set w2. isspace c)"
proof -
  define v where "v = dropWhile isspace s"
  define w1 where "w1 = takeWhile isspace s"
  define w2 where "w2 = rev (takeWhile isspace (rev v))"
  have "rev v = takeWhile isspace (rev v) @ dropWhile isspace (rev v)" by simp
  then have "rev (rev v) = rev (takeWhile isspace (rev v) @ dropWhile isspace (rev v))"
    by (rule arg_cong)
  then have "v = rev (dropWhile isspace (rev v)) @ rev (takeWhile isspace (rev v))"
    unfolding rev_append rev_rev_ident .
  then have "v = strip s @ w2" unfolding strip_def w2_def v_def .
  moreover have "s = w1 @ v" by (simp add: w1_def v_def)
  moreover have "\<forall>c\<in>set w1. isspace c" by (auto simp: w1_def dest: set_takeWhileD)
  moreover have "\<forall>c\<in>set w2. isspace c" by (auto simp: w2_def dest: set_takeWhileD)
  ultimately show ?thesis by blast
qed

lemma isspace_not_fence: "isspace c \<Longrightarrow> c \<notin> set ''```json''"
  by (auto simp: isspace_def)

lemma isspace_not_fence3: "isspace c \<Longrightarrow> c \<notin> set ''```''"
  by (auto simp: isspace_def)

lemma no_fence_raw_json: "\<not> str_contains ''```'' (raw_json t)"
proof -
  have "sublist (raw_json t) (replace ''```'' '''' (replace ''```json'' '''' (strip t)))"
    unfolding raw_json_def by (rule sublist_strip)
  moreover have "\<not> sublist ''```'' (replace ''```'' '''' (replace ''```json'' '''' (strip t)))"
    using no_fence_replace[of "replace ''```json'' '''' (strip t)"] unfolding str_contains_sublist .
  ultimately have "\<not> sublist ''```'' (raw_json t)"
    using sublist_order.order.trans by blast
  then show ?thesis unfolding str_contains_sublist .
qed

lemma no_json_fence: "\<not> str_contains ''```'' t \<Longrightarrow> \<not> str_contains ''```json'' t"
proof -
  assume a: "\<not> str_contains ''```'' t"
  have "sublist ''```'' ''```json''" by (rule prefix_imp_sublist) simp
  then have "sublist ''```json'' t \<Longrightarrow> sublist ''```'' t"
    using sublist_order.order.trans by blast
  then show ?thesis using a unfolding str_contains_sublist by blast
qed

lemma raw_json_no_fence: "\<not> str_contains ''```'' t \<Longrightarrow> raw_json t = strip t"
proof -
  assume a: "\<not> str_contains ''```'' t"
  have "\<not> sublist ''```'' (strip t)"
    using a sublist_strip[of t] sublist_order.order.trans
    unfolding str_contains_sublist by blast
  then have b: "\<not> str_contains ''```'' (strip t)" unfolding str_contains_sublist .
  then have c: "\<not> str_contains ''```json'' (strip t)" by (rule no_json_fence)
  have 1: "replace ''```json'' '''' (strip t) = strip t" using c by (intro replace_absent) auto
  have 2: "replace ''```'' '''' (strip t) = strip t" using b by (intro replace_absent) auto
  show ?thesis unfolding raw_json_def 1 2 by (rule strip_strip)
qed

lemma raw_json_idempotent: "raw_json (raw_json t) = raw_json t"
proof -
  have "raw_json (raw_json t) = strip (raw_json t)" using no_fence_raw_json by (rule raw_json_no_fence)
  also have "\<dots> = raw_json t" unfolding raw_json_def by (rule strip_strip)
  finally show ?thesis .
qed

lemma replace_both_pad:
  assumes "old \<noteq> []" "\<forall>c\<in>set w1. c \<notin> set old" "\<forall>c\<in>set w2. c \<notin> set old"
  shows "replace old new (w1 @ s @ w2) = w1 @ replace old new s @ w2"
proof -
  have "replace old new (w1 @ (s @ w2)) = w1 @ replace old new (s @ w2)"
    using assms(1,2) by (rule replace_pad_left)
  also have "replace old new (s @ w2) = replace old new s @ w2"
    using assms(1,3) by (rule replace_pad_right)
  finally show ?thesis .
qed

lemma raw_json_strip_first:
  "strip (replace ''```'' '''' (replace ''```json'' '''' p)) = raw_json p"
proof -
  obtain w1 w2 where p: "p = w1 @ strip p @ w2"
    and w1: "\<forall>c\<in>set w1. isspace c" and w2: "\<forall>c\<in>set w2. isspace c"
    using strip_decompose by blast
  have 1: "replace ''```json'' '''' (w1 @ strip p @ w2) = w1 @ replace ''```json'' '''' (strip p) @ w2"
    using w1 w2 isspace_not_fence by (intro replace_both_pad) auto
  have 2: "replace ''```'' '''' (w1 @ replace ''```json'' '''' (strip p) @ w2)
           = w1 @ replace ''```'' '''' (replace ''```json'' '''' (strip p)) @ w2"
    using w1 w2 isspace_not_fence3 by (intro replace_both_pad) auto
  have "strip (replace ''```'' '''' (replace ''```json'' '''' (w1 @ strip p @ w2))) = raw_json p"
    unfolding 1 2 raw_json_def using w1 w2 by (rule strip_pad)
  then show ?thesis using p by simp
qed

lemma raw_json_fenced: "raw_json (fenced p) = raw_json p"
proof -
  have s: "strip (fenced p) = fenced p"
    by (rule strip_fix) (simp add: fenced_def isspace_def)
  have nl: "CHR ''\<newline>'' \<notin> set ''```json''" "CHR ''\<newline>'' \<notin> set ''```''" by simp_all
  have "fenced p = ''```json'' @ (CHR ''\<newline>'' # (p @ CHR ''\<newline>'' # ''```''))"
    by (simp add: fenced_def)
  have m: "replace ''```json'' '''' (fenced p)
        = replace ''```json'' '''' ([] @ CHR ''\<newline>'' # (p @ CHR ''\<newline>'' # ''```''))"
    by (simp add: fenced_def)
  have a: "replace ''```json'' '''' ([] @ CHR ''\<newline>'' # (p @ CHR ''\<newline>'' # ''```''))
        = replace ''```json'' '''' [] @ CHR ''\<newline>'' # replace ''```json'' '''' (p @ CHR ''\<newline>'' # ''```'')"
    using nl(1) by (intro replace_sep) auto
  have b: "replace ''```json'' '''' (p @ CHR ''\<newline>'' # ''```'')
        = replace ''```json'' '''' p @ CHR ''\<newline>'' # replace ''```json'' '''' ''```''"
    using nl(1) by (intro replace_sep) auto
  have j: "replace ''```json'' '''' (fenced p)
         = [] @ CHR ''\<newline>'' # (replace ''```json'' '''' p @ CHR ''\<newline>'' # ''```'')"
    unfolding m a b by simp
  have c: "replace ''```'' '''' ([] @ CHR ''\<newline>'' # (replace ''```json'' '''' p @ CHR ''\<newline>'' # ''```''))
        = replace ''```'' '''' [] @ CHR ''\<newline>'' #
          replace ''```'' '''' (replace ''```json'' '''' p @ CHR ''\<newline>'' # ''```'')"
    using nl(2) by (intro replace_sep) auto
  have d: "replace ''```'' '''' (replace ''```json'' '''' p @ CHR ''\<newline>'' # ''```'')
        = replace ''```'' '''' (replace ''```json'' '''' p) @ CHR ''\<newline>'' # replace ''```'' '''' ''```''"
    using nl(2) by (intro replace_sep) auto
  have r: "replace ''```'' '''' (replace ''```json'' '''' (fenced p))
         = [CHR ''\<newline>''] @ replace ''```'' '''' (replace ''```json'' '''' p) @ [CHR ''\<newline>'']"
    unfolding j c d by simp
  have "raw_json (fenced p) = strip (replace ''```'' '''' (replace ''```json'' '''' p))"
    unfolding raw_json_def s r by (rule strip_pad) (simp_all add: isspace_def)
  then show ?thesis by (simp only: raw_json_strip_first)
qed

lemma raw_json_small:
  "raw_json ''{\"foo\":\"bar\"}'' = ''{\"foo\":\"bar\"}''"
  "raw_json ''{\"error\":\"boom\"}'' = ''{\"error\":\"boom\"}''"
  "raw_json ''[]'' = ''[]''"
  "raw_json ''5'' = ''5''"
  "raw_json ''null'' = ''null''"
  by (simp_all add: raw_json_def strip_def isspace_def)

lemma raw_json_motor_mount_text: "raw_json motor_mount_text = motor_mount_text"
proof -
  have "\<not> str_contains ''```'' motor_mount_text"
    by (simp add: motor_mount_text_def)
  then have "raw_json motor_mount_text = strip motor_mount_text" by (rule raw_json_no_fence)
  also have "\<dots> = motor_mount_text"
    by (rule strip_fix) (simp add: motor_mount_text_def isspace_def)
  finally show ?thesis .
qed

lemma raw_json_quota_text: "raw_json quota_text = quota_text"
proof -
  have "\<not> str_contains ''```'' quota_text"
    by (simp add: quota_text_def motor_mount_text_def)
  then have "raw_json quota_text = strip quota_text" by (rule raw_json_no_fence)
  also have "\<dots> = quota_text"
    by (rule strip_fix) (simp add: quota_text_def motor_mount_text_def isspace_def)
  finally show ?thesis .
qed


section \<open>The cleaning of the reply\<close>

text \<open>
  Claim C4, as stated, fails on a payload that contains the fence marker itself. The
  payload \<^verbatim>\<open>"```"\<close> is the JSON string of three backticks; in its fenced form the cleaning
  removes the backticks inside the payload too, and what is parsed is the empty string.
\<close>

theorem fence_inside_payload_counterexample:
  "loads (canned_env (Some (fenced ''\"```\"''))
            [(''\"```\"'', JString ''```''), (''\"\"'', JString '''')]) ''\"```\"''
     = Inr (JString ''```'')
   \<and> raw_json (fenced ''\"```\"'') = ''\"\"''
   \<and> try_loads (canned_env (Some (fenced ''\"```\"''))
                 [(''\"```\"'', JString ''```''), (''\"\"'', JString '''')])
         \<lparr>text' = Some (fenced ''\"```\"'')\<rparr>
     = Inr (JString '''')
   \<and> try_loads (canned_env (Some (fenced ''\"```\"''))
                 [(''\"```\"'', JString ''```''), (''\"\"'', JString '''')])
         \<lparr>text' = Some (fenced ''\"```\"'')\<rparr>
     \<noteq> loads (canned_env (Some (fenced ''\"```\"''))
            [(''\"```\"'', JString ''```''), (''\"\"'', JString '''')]) ''\"```\"''"
  by (simp add: canned_env_def try_loads_def raw_json_def fenced_def strip_def isspace_def)

text \<open>
  Claim C4, amended. For every payload that does not contain the marker \<^verbatim>\<open>```\<close> and that
  \<^verbatim>\<open>json.loads\<close> parses alike with and without its surrounding whitespace, the cleaning of
  the fenced payload gives the stripped payload, and parsing the fenced reply gives what
  parsing the payload gives. For every payload, the fenced and the bare form are cleaned
  to the same text. The cleaning is idempotent.
\<close>

theorem fenced_payload_parses_alike:
  "(\<not> str_contains ''```'' p \<and> loads env (strip p) = loads env p
      \<longrightarrow> raw_json (fenced p) = strip p
          \<and> try_loads env \<lparr>text' = Some (fenced p)\<rparr> = loads env p)
   \<and> raw_json (fenced p) = raw_json p
   \<and> raw_json (raw_json t) = raw_json t"
proof -
  have "raw_json (fenced p) = strip p" if "\<not> str_contains ''```'' p"
    using that by (simp add: raw_json_fenced raw_json_no_fence)
  then show ?thesis
    by (simp add: raw_json_fenced raw_json_idempotent try_loads_def)
qed

text \<open>The amended claim on the payload \<^verbatim>\<open> {"a": 1}\<close>, with a leading blank.\<close>

theorem fenced_payload_parses_alike_witness:
  "\<not> str_contains ''```'' '' {\"a\": 1}''
   \<and> raw_json (fenced '' {\"a\": 1}'') = ''{\"a\": 1}''
   \<and> try_loads (canned_env None [(''{\"a\": 1}'', JObject (fmap_of_list [(''a'', JInt 1)])),
                                  ('' {\"a\": 1}'', JObject (fmap_of_list [(''a'', JInt 1)]))])
         \<lparr>text' = Some (fenced '' {\"a\": 1}'')\<rparr>
       = Inr (JObject (fmap_of_list [(''a'', JInt 1)]))"
proof -
  have 1: "\<not> str_contains ''```'' '' {\"a\": 1}''" by simp
  have 2: "strip '' {\"a\": 1}'' = ''{\"a\": 1}''" by (simp add: strip_def isspace_def)
  show ?thesis
    using 1 2 fenced_payload_parses_alike[of "'' {\"a\": 1}''"
        "canned_env None [(''{\"a\": 1}'', JObject (fmap_of_list [(''a'', JInt 1)])),
                          ('' {\"a\": 1}'', JObject (fmap_of_list [(''a'', JInt 1)]))]"]
    by (simp add: canned_env_def)
qed


section \<open>The gateway: \<^verbatim>\<open>llm_client.py\<close>\<close>










lemma replies_gateways:
  assumes "raw_json reply = reply"
  shows "snd (get_diagnostic_from_llm (replies reply v) vh hs) = Inr v"
    and "snd (get_image_diagnostic_from_llm (replies reply v) vh p b) = Inr v"
    and "snd (get_vehicle_info_from_image (replies reply v) b) = Inr v"
    and "snd (get_vehicle_info_from_text (replies reply v) q) = Inr v"
  using assms
  by (simp_all add: get_diagnostic_from_llm_def get_image_diagnostic_from_llm_def
      get_vehicle_info_from_image_def get_vehicle_info_from_text_def replies_def canned_env_def
      try_loads_def)






section \<open>The schemas: \<^verbatim>\<open>schemas.py\<close>\<close>

lemma fmap_of_list_eqI:
  assumes "fmdom d = fset_of_list (map fst kvs)"
    and "\<forall>(k, v)\<in>set kvs. fmlookup d k = Some v"
  shows "fmap_of_list kvs = d"
proof (rule fmap_ext)
  fix k
  show "fmlookup (fmap_of_list kvs) k = fmlookup d k"
  proof (cases "map_of kvs k")
    case None
    then have "k \<notin> fst ` set kvs" by (simp add: map_of_eq_None_iff)
    then have "k |\<notin>| fmdom d" using assms(1) by (simp add: fset_of_list.rep_eq)
    then have "fmlookup d k = None" by (rule fmdom_notD)
    then show ?thesis using None by (simp add: fmlookup_of_list)
  next
    case (Some v)
    then have "(k, v) \<in> set kvs" by (rule map_of_SomeD)
    then have "fmlookup d k = Some v" using assms(2) by auto
    then show ?thesis using Some by (simp add: fmlookup_of_list)
  qed
qed

lemma validate_list_all:
  assumes "\<forall>x\<in>set xs. \<exists>y. validator x = Inr y \<and> dump y = x"
  shows "\<exists>ys. validate_list validator (JArray xs) = Inr ys \<and> map dump ys = xs"
proof -
  define g where "g x = projr (validator x)" for x
  have g: "validator x = Inr (g x)" "dump (g x) = x" if "x \<in> set xs" for x
    using assms that by (auto simp: g_def)
  have rs: "map (\<lambda>(i, x). with_loc (Index i) (validator x)) (enumerate 0 xs)
            = map (\<lambda>(i, x). Inr (g x)) (enumerate 0 xs)"
    by (rule map_cong) (auto simp: in_set_enumerate_eq g(1) with_loc_def)
  have 1: "list_all (\<lambda>r. \<not> isl r) (map (\<lambda>(i, x). Inr (g x) :: line_errors + 'a) (enumerate 0 xs))"
    by (simp add: list_all_iff split_def)
  have 2: "map projr (map (\<lambda>(i, x). Inr (g x) :: line_errors + 'a) (enumerate 0 xs)) = map g xs"
  proof -
    have "map g xs = map g (map snd (enumerate 0 xs))" by simp
    also have "\<dots> = map (\<lambda>x. g (snd x)) (enumerate 0 xs)"
      by (simp only: map_map comp_def)
    finally show ?thesis by (simp add: split_def comp_def)
  qed
  have "validate_list validator (JArray xs) = Inr (map g xs)"
    unfolding validate_list_def using 1 2 by (simp add: rs Let_def)
  moreover have "map dump (map g xs) = xs"
    using g(2) by (simp add: map_idI)
  ultimately show ?thesis by blast
qed

lemma validate_str_dump:
  "is_string x \<Longrightarrow> \<exists>y. validate_str env x = Inr y \<and> JString y = x"
  by (cases x) (simp_all add: is_string_def validate_str_def)

lemma strings_at_validate:
  assumes "strings_at data k"
  shows "\<exists>ss. validate_field data k (validate_list (validate_str env)) = Inr ss
              \<and> fmlookup data k = Some (JArray (map JString ss))"
proof -
  obtain xs where xs: "fmlookup data k = Some (JArray xs)" "list_all is_string xs"
    using assms by (auto simp: strings_at_def split: option.splits json.splits)
  have "\<forall>x\<in>set xs. \<exists>y. validate_str env x = Inr y \<and> JString y = x"
    using xs(2) validate_str_dump by (auto simp: list_all_iff)
  then obtain ss where "validate_list (validate_str env) (JArray xs) = Inr ss" "map JString ss = xs"
    using validate_list_all[of xs "validate_str env" JString] by blast
  then show ?thesis using xs(1) by (simp add: validate_field_def with_loc_def)
qed

lemma string_at_validate:
  assumes "string_at data k"
  shows "\<exists>s. validate_field data k (validate_str env) = Inr s \<and> fmlookup data k = Some (JString s)"
proof -
  obtain s where "fmlookup data k = Some (JString s)"
    using assms by (auto simp: string_at_def is_string_def split: option.splits json.splits)
  then show ?thesis by (simp add: validate_field_def with_loc_def validate_str_def)
qed

lemma Problem_shaped_validate:
  assumes "Problem_shaped v"
  shows "\<exists>p. validate_model (Problem_validate env) v = Inr p \<and> Problem_dump p = v"
proof -
  obtain data where v: "v = JObject data"
    and dom: "fmdom data = fset_of_list [''name'', ''description'']"
    and f: "string_at data ''name''" "string_at data ''description''"
    using assms by (auto simp: Problem_shaped_def split: json.splits)
  obtain a where a: "validate_field data ''name'' (validate_str env) = Inr a"
      "fmlookup data ''name'' = Some (JString a)"
    using string_at_validate[OF f(1)] by blast
  obtain b where b: "validate_field data ''description'' (validate_str env) = Inr b"
      "fmlookup data ''description'' = Some (JString b)"
    using string_at_validate[OF f(2)] by blast
  have "fmap_of_list [(''name'', JString a), (''description'', JString b)] = data"
    by (rule fmap_of_list_eqI) (use dom a(2) b(2) in auto)
  then show ?thesis
    using a(1) b(1) v by (simp add: validate_model_def Problem_validate_def Problem_dump_def)
qed

lemma EstimatedCost_shaped_validate:
  assumes "EstimatedCost_shaped v"
  shows "\<exists>c. validate_model (EstimatedCost_validate env) v = Inr c \<and> EstimatedCost_dump c = v"
proof -
  obtain data where v: "v = JObject data"
    and dom: "fmdom data = fset_of_list [''range'', ''disclaimer'']"
    and f: "string_at data ''range''" "string_at data ''disclaimer''"
    using assms by (auto simp: EstimatedCost_shaped_def split: json.splits)
  obtain a where a: "validate_field data ''range'' (validate_str env) = Inr a"
      "fmlookup data ''range'' = Some (JString a)"
    using string_at_validate[OF f(1)] by blast
  obtain b where b: "validate_field data ''disclaimer'' (validate_str env) = Inr b"
      "fmlookup data ''disclaimer'' = Some (JString b)"
    using string_at_validate[OF f(2)] by blast
  have "fmap_of_list [(''range'', JString a), (''disclaimer'', JString b)] = data"
    by (rule fmap_of_list_eqI) (use dom a(2) b(2) in auto)
  then show ?thesis
    using a(1) b(1) v
    by (simp add: validate_model_def EstimatedCost_validate_def EstimatedCost_dump_def)
qed

lemma Severity_shaped_level:
  assumes "(case fmlookup data ''level'' of
                Some (JString l) \<Rightarrow> l \<in> set [''CRITICAL'', ''CAUTION'', ''INFORMATION'']
              | _ \<Rightarrow> False)"
  shows "\<exists>l. fmlookup data ''level'' = Some (JString l)
             \<and> l \<in> set [''CRITICAL'', ''CAUTION'', ''INFORMATION'']"
proof (cases "fmlookup data ''level''")
  case None
  then show ?thesis using assms by simp
next
  case (Some v)
  then show ?thesis using assms by (cases v) simp_all
qed

lemma Severity_shaped_validate:
  assumes "Severity_shaped v"
  shows "\<exists>s. validate_model (Severity_validate env) v = Inr s \<and> Severity_dump s = v
              \<and> level s \<in> set Severity_level_literals"
proof -
  obtain data where v: "v = JObject data"
    using assms by (cases v) (simp_all add: Severity_shaped_def)
  have dom: "fmdom data = fset_of_list [''level'', ''message'']"
    and lv: "(case fmlookup data ''level'' of
                Some (JString l) \<Rightarrow> l \<in> set [''CRITICAL'', ''CAUTION'', ''INFORMATION'']
              | _ \<Rightarrow> False)"
    and f: "string_at data ''message''"
    using assms unfolding v Severity_shaped_def by simp_all
  obtain l where l: "fmlookup data ''level'' = Some (JString l)"
           "l \<in> set [''CRITICAL'', ''CAUTION'', ''INFORMATION'']"
    using Severity_shaped_level[OF lv] by blast
  have a: "validate_field data ''level'' (validate_literal Severity_level_literals) = Inr l"
    using l by (simp add: validate_field_def validate_literal_def with_loc_def
        Severity_level_literals_def)
  obtain b where b: "validate_field data ''message'' (validate_str env) = Inr b"
      "fmlookup data ''message'' = Some (JString b)"
    using string_at_validate[OF f] by blast
  have "fmap_of_list [(''level'', JString l), (''message'', JString b)] = data"
    by (rule fmap_of_list_eqI) (use dom l(1) b(2) in auto)
  then show ?thesis
    using a b(1) v l(2)
    by (simp add: validate_model_def Severity_validate_def Severity_dump_def
        Severity_level_literals_def)
qed

lemma problems_validate:
  assumes "fmlookup data ''potential_problems'' = Some (JArray xs)" "list_all Problem_shaped xs"
  shows "\<exists>ps. validate_field data ''potential_problems''
                 (validate_list (validate_model (Problem_validate env))) = Inr ps
              \<and> map Problem_dump ps = xs"
proof -
  have "\<forall>x\<in>set xs. \<exists>y. validate_model (Problem_validate env) x = Inr y \<and> Problem_dump y = x"
    using assms(2) Problem_shaped_validate by (auto simp: list_all_iff)
  then obtain ps where
    "validate_list (validate_model (Problem_validate env)) (JArray xs) = Inr ps"
    "map Problem_dump ps = xs"
    using validate_list_all[of xs "validate_model (Problem_validate env)" Problem_dump] by blast
  then show ?thesis using assms(1) by (simp add: validate_field_def with_loc_def)
qed

lemma shaped_problems:
  assumes "(case fmlookup data ''potential_problems'' of
           Some (JArray xs) \<Rightarrow> list_all Problem_shaped xs
         | _ \<Rightarrow> False)"
  shows "\<exists>xs. fmlookup data ''potential_problems'' = Some (JArray xs) \<and> list_all Problem_shaped xs"
proof (cases "fmlookup data ''potential_problems''")
  case None
  then show ?thesis using assms by simp
next
  case (Some v)
  then show ?thesis using assms by (cases v) simp_all
qed

lemma shaped_some:
  assumes "(case fmlookup data k of Some v \<Rightarrow> P v | None \<Rightarrow> False)"
  shows "\<exists>v. fmlookup data k = Some v \<and> P v"
  using assms by (cases "fmlookup data k") simp_all

lemma validate_motor_mount:
  "DiagnosticReportResponse_validate env (fmap_of_list motor_mount_fields) = Inr motor_mount_report"
  by (simp add: DiagnosticReportResponse_validate_def motor_mount_fields_def motor_mount_report_def
      validate_field_def validate_list_def validate_model_def validate_str_def with_loc_def
      Problem_validate_def Severity_validate_def EstimatedCost_validate_def validate_literal_def
      Severity_level_literals_def enumerate_eq_zip Let_def)

lemma dump_motor_mount:
  "DiagnosticReportResponse_dump motor_mount_report = JObject (fmap_of_list motor_mount_fields)"
  by (simp add: DiagnosticReportResponse_dump_def motor_mount_report_def motor_mount_fields_def
      Problem_dump_def Severity_dump_def EstimatedCost_dump_def)

lemma shaped_motor_mount: "DiagnosticReport_shaped (fmap_of_list motor_mount_fields)"
  by (simp add: DiagnosticReport_shaped_def motor_mount_fields_def Problem_shaped_def
      Severity_shaped_def EstimatedCost_shaped_def strings_at_def string_at_def is_string_def)

lemma validate_quota_fields:
  "DiagnosticReportResponse_validate env (fmap_of_list quota_fields) = Inr motor_mount_report"
  by (simp add: DiagnosticReportResponse_validate_def quota_fields_def motor_mount_fields_def
      motor_mount_report_def
      validate_field_def validate_list_def validate_model_def validate_str_def with_loc_def
      Problem_validate_def Severity_validate_def EstimatedCost_validate_def validate_literal_def
      Severity_level_literals_def enumerate_eq_zip Let_def)

text \<open>
  Claim C5. Every JSON object of the DiagnosticReport shape (exactly the documented
  fields, of the documented types, the level one of the three literals) is accepted by
  the validation of \<^verbatim>\<open>DiagnosticReportResponse\<close>, whatever pydantic would convert, and the
  validated model serialises to the very same object: no field is added, dropped or
  altered.
\<close>

theorem conforming_report_round_trip:
  assumes "DiagnosticReport_shaped data"
  shows "\<exists>r. DiagnosticReportResponse_validate env data = Inr r
             \<and> DiagnosticReportResponse_dump r = JObject data
             \<and> level (severity r) \<in> set Severity_level_literals"
proof -
  have dom: "fmdom data =
       fset_of_list [''potential_problems'', ''severity'', ''next_steps'', ''estimated_cost'',
                     ''disclaimers'']"
    and pp: "(case fmlookup data ''potential_problems'' of
           Some (JArray xs) \<Rightarrow> list_all Problem_shaped xs
         | _ \<Rightarrow> False)"
    and sv: "(case fmlookup data ''severity'' of Some v \<Rightarrow> Severity_shaped v | None \<Rightarrow> False)"
    and ns: "strings_at data ''next_steps''"
    and ec: "(case fmlookup data ''estimated_cost'' of
           Some v \<Rightarrow> EstimatedCost_shaped v
         | None \<Rightarrow> False)"
    and ds: "strings_at data ''disclaimers''"
    using assms unfolding DiagnosticReport_shaped_def by simp_all
  obtain xs where xs: "fmlookup data ''potential_problems'' = Some (JArray xs)"
      "list_all Problem_shaped xs"
    using shaped_problems[OF pp] by blast
  obtain a where a: "validate_field data ''potential_problems''
                 (validate_list (validate_model (Problem_validate env))) = Inr a"
      "map Problem_dump a = xs"
    using problems_validate[OF xs] by blast
  obtain sj where sj: "fmlookup data ''severity'' = Some sj" "Severity_shaped sj"
    using shaped_some[OF sv] by blast
  obtain b where b: "validate_model (Severity_validate env) sj = Inr b" "Severity_dump b = sj"
      "level b \<in> set Severity_level_literals"
    using Severity_shaped_validate[OF sj(2)] by blast
  obtain c where c: "validate_field data ''next_steps'' (validate_list (validate_str env)) = Inr c"
      "fmlookup data ''next_steps'' = Some (JArray (map JString c))"
    using strings_at_validate[OF ns] by blast
  obtain ej where ej: "fmlookup data ''estimated_cost'' = Some ej" "EstimatedCost_shaped ej"
    using shaped_some[OF ec] by blast
  obtain d where d: "validate_model (EstimatedCost_validate env) ej = Inr d"
      "EstimatedCost_dump d = ej"
    using EstimatedCost_shaped_validate[OF ej(2)] by blast
  obtain e where e: "validate_field data ''disclaimers'' (validate_list (validate_str env)) = Inr e"
      "fmlookup data ''disclaimers'' = Some (JArray (map JString e))"
    using strings_at_validate[OF ds] by blast
  have b': "validate_field data ''severity'' (validate_model (Severity_validate env)) = Inr b"
    using sj(1) b(1) by (simp add: validate_field_def with_loc_def)
  have d': "validate_field data ''estimated_cost'' (validate_model (EstimatedCost_validate env))
            = Inr d"
    using ej(1) d(1) by (simp add: validate_field_def with_loc_def)
  define r where "r = \<lparr>potential_problems = a, severity = b, next_steps = c,
                  estimated_cost = d, disclaimers = e\<rparr>"
  have 1: "DiagnosticReportResponse_validate env data = Inr r"
    unfolding DiagnosticReportResponse_validate_def a(1) b' c(1) d' e(1) r_def
    by (simp add: Let_def)
  have 2: "fmap_of_list
       [(''potential_problems'', JArray (map Problem_dump a)),
        (''severity'', Severity_dump b),
        (''next_steps'', JArray (map JString c)),
        (''estimated_cost'', EstimatedCost_dump d),
        (''disclaimers'', JArray (map JString e))] = data"
    by (rule fmap_of_list_eqI) (use dom xs(1) a(2) sj(1) b(2) c(2) ej(1) d(2) e(2) in auto)
  have "DiagnosticReportResponse_dump r = JObject data"
    unfolding DiagnosticReportResponse_dump_def r_def using 2 by simp
  moreover have "level (severity r) \<in> set Severity_level_literals"
    using b(3) by (simp add: r_def)
  ultimately show ?thesis using 1 by blast
qed

text \<open>The round trip on the report of the first scenario.\<close>

theorem conforming_report_round_trip_witness:
  "DiagnosticReport_shaped (fmap_of_list motor_mount_fields)
   \<and> DiagnosticReportResponse_validate (canned_env None []) (fmap_of_list motor_mount_fields)
       = Inr motor_mount_report
   \<and> DiagnosticReportResponse_dump motor_mount_report
       = JObject (fmap_of_list motor_mount_fields)"
  using shaped_motor_mount
    conforming_report_round_trip[OF shaped_motor_mount, of "canned_env None []"]
  by (auto simp: validate_motor_mount)

lemma with_loc_Inr: "with_loc l r = Inr v \<longleftrightarrow> r = Inr v"
  by (cases r) (simp_all add: with_loc_def)

lemma validate_field_Inr:
  "validate_field data k validator = Inr x \<longleftrightarrow> (\<exists>v. fmlookup data k = Some v \<and> validator v = Inr x)"
  by (cases "fmlookup data k") (simp_all add: validate_field_def with_loc_Inr)

lemma validate_literal_Inr: "validate_literal allowed v = Inr s \<Longrightarrow> s \<in> set allowed"
  by (cases v) (simp_all add: validate_literal_def split: if_splits)

lemma Severity_validate_level:
  assumes "Severity_validate env data = Inr s"
  shows "level s \<in> set Severity_level_literals"
proof -
  obtain a b where a: "validate_field data ''level'' (validate_literal Severity_level_literals) = Inr a"
    and s: "s = \<lparr>level = a, message = b\<rparr>"
    using assms by (auto simp: Severity_validate_def Let_def split: sum.splits)
  from a obtain v where "validate_literal Severity_level_literals v = Inr a"
    unfolding validate_field_Inr by blast
  then have "a \<in> set Severity_level_literals" by (rule validate_literal_Inr)
  then show ?thesis using s by simp
qed

lemma validate_model_Inr:
  "validate_model init v = Inr x \<longleftrightarrow> (\<exists>data. v = JObject data \<and> init data = Inr x)"
  by (cases v) (simp_all add: validate_model_def)

lemma validated_report_level:
  assumes "DiagnosticReportResponse_validate env data = Inr r"
  shows "level (severity r) \<in> set Severity_level_literals"
proof -
  obtain b where b: "validate_field data ''severity'' (validate_model (Severity_validate env)) = Inr b"
    and r: "severity r = b"
    using assms by (auto simp: DiagnosticReportResponse_validate_def Let_def split: sum.splits)
  from b obtain s where "Severity_validate env s = Inr b"
    unfolding validate_field_Inr validate_model_Inr by blast
  then show ?thesis using r Severity_validate_level by simp
qed

lemma errors_of_DiagnosticReportResponse_validate:
  "errors_of (DiagnosticReportResponse_validate env data) =
     errors_of (validate_field data ''potential_problems''
                  (validate_list (validate_model (Problem_validate env))))
     @ errors_of (validate_field data ''severity'' (validate_model (Severity_validate env)))
     @ errors_of (validate_field data ''next_steps'' (validate_list (validate_str env)))
     @ errors_of (validate_field data ''estimated_cost''
                    (validate_model (EstimatedCost_validate env)))
     @ errors_of (validate_field data ''disclaimers'' (validate_list (validate_str env)))"
  by (simp add: DiagnosticReportResponse_validate_def Let_def errors_of_def split: sum.splits)

lemma errors_of_Vehicle_validate:
  "errors_of (Vehicle_validate env data) =
     errors_of (validate_field data ''make'' (validate_str env))
     @ errors_of (validate_field data ''model'' (validate_str env))
     @ errors_of (validate_field data ''year'' (validate_int env))"
  by (simp add: Vehicle_validate_def Let_def errors_of_def split: sum.splits)

lemma construct_errors:
  "errors_of (init data) \<noteq> [] \<Longrightarrow>
   construct init (JObject data) = Inl (ValidationError (errors_of (init data)))"
  by (cases "init data") (simp_all add: construct_def errors_of_def)

lemma construct_foo_bar:
  "construct (DiagnosticReportResponse_validate env) foo_bar
     = Inl (ValidationError
         [([Field ''potential_problems''], missing), ([Field ''severity''], missing),
          ([Field ''next_steps''], missing), ([Field ''estimated_cost''], missing),
          ([Field ''disclaimers''], missing)])"
  by (simp add: foo_bar_def construct_def DiagnosticReportResponse_validate_def
      validate_field_def errors_of_def Let_def)

lemma construct_foo_bar_vehicle:
  "construct (Vehicle_validate env) foo_bar
     = Inl (ValidationError
         [([Field ''make''], missing), ([Field ''model''], missing), ([Field ''year''], missing)])"
  by (simp add: foo_bar_def construct_def Vehicle_validate_def validate_field_def errors_of_def
      Let_def)

lemma construct_boom:
  "construct (DiagnosticReportResponse_validate env) boom
     = Inl (ValidationError
         [([Field ''potential_problems''], missing), ([Field ''severity''], missing),
          ([Field ''next_steps''], missing), ([Field ''estimated_cost''], missing),
          ([Field ''disclaimers''], missing)])"
  by (simp add: boom_def construct_def DiagnosticReportResponse_validate_def
      validate_field_def errors_of_def Let_def)

lemma construct_motor_mount:
  "construct (DiagnosticReportResponse_validate env) (JObject (fmap_of_list motor_mount_fields))
     = Inr motor_mount_report"
  by (simp add: construct_def validate_motor_mount)

lemma construct_empty_array: "construct init (JArray []) = Inl TypeError"
  by (simp add: construct_def)

text \<open>
  Claim C7, as stated, fails on the empty mapping for a vehicle and on
  \<^verbatim>\<open>{"foo":"bar"}\<close> for a report: the error lists three and five violations, in the
  order of the fields, not one.
\<close>

theorem every_violation_reported_counterexample:
  "construct (Vehicle_validate (canned_env None [])) (JObject fmempty)
     = Inl (ValidationError
         [([Field ''make''], missing), ([Field ''model''], missing), ([Field ''year''], missing)])
   \<and> construct (DiagnosticReportResponse_validate (canned_env None [])) foo_bar
     = Inl (ValidationError
         [([Field ''potential_problems''], missing), ([Field ''severity''], missing),
          ([Field ''next_steps''], missing), ([Field ''estimated_cost''], missing),
          ([Field ''disclaimers''], missing)])"
proof -
  have "construct (Vehicle_validate (canned_env None [])) (JObject fmempty)
     = Inl (ValidationError
         [([Field ''make''], missing), ([Field ''model''], missing), ([Field ''year''], missing)])"
    by (simp add: construct_def Vehicle_validate_def validate_field_def errors_of_def Let_def)
  then show ?thesis using construct_foo_bar[of "canned_env None []"] by (rule conjI)
qed

lemma errors_of_with_loc: "errors_of (with_loc l r) = at_loc l (errors_of r)"
  by (cases r) (simp_all add: with_loc_def errors_of_def at_loc_def)

lemma isl_with_loc: "isl (with_loc l r) = isl r"
  by (cases r) (simp_all add: with_loc_def)

lemma at_loc_Nil: "at_loc l es = [] \<longleftrightarrow> es = []"
  by (simp add: at_loc_def)

lemma errors_of_validate_field:
  assumes "\<And>v. errors_of (validator v) = violations v"
  shows "errors_of (validate_field data k validator) = field_violations data k violations"
  using assms
  by (cases "fmlookup data k")
    (simp_all add: validate_field_def field_violations_def errors_of_with_loc, simp add: errors_of_def)

lemma fails_validate_field:
  assumes "\<And>v. isl (validator v) \<Longrightarrow> errors_of (validator v) \<noteq> []"
  shows "isl (validate_field data k validator) \<Longrightarrow> errors_of (validate_field data k validator) \<noteq> []"
  using assms
  by (cases "fmlookup data k")
    (simp_all add: validate_field_def errors_of_with_loc isl_with_loc at_loc_Nil, simp add: errors_of_def)

lemma errors_of_validate_str: "errors_of (validate_str env v) = str_violations env v"
  by (cases v; cases "str_lax env v")
    (simp_all add: validate_str_def str_violations_def errors_of_def is_string_def)

lemma fails_validate_str: "isl (validate_str env v) \<Longrightarrow> errors_of (validate_str env v) \<noteq> []"
  by (cases v; cases "str_lax env v") (simp_all add: validate_str_def errors_of_def)

lemma errors_of_validate_int: "errors_of (validate_int env v) = int_violations env v"
  by (cases v; cases "int_lax env v")
    (simp_all add: validate_int_def int_violations_def errors_of_def is_int_def)

lemma fails_validate_int: "isl (validate_int env v) \<Longrightarrow> errors_of (validate_int env v) \<noteq> []"
  by (cases v; cases "int_lax env v") (simp_all add: validate_int_def errors_of_def)

lemma errors_of_validate_literal:
  "errors_of (validate_literal allowed v) = literal_violations allowed v"
  by (cases v) (auto simp: validate_literal_def literal_violations_def errors_of_def)

lemma fails_validate_literal:
  "isl (validate_literal allowed v) \<Longrightarrow> errors_of (validate_literal allowed v) \<noteq> []"
  by (cases v) (auto simp: validate_literal_def errors_of_def)

lemma errors_of_validate_model:
  assumes "\<And>d. errors_of (init d) = violations d"
  shows "errors_of (validate_model init v) = model_violations violations v"
  using assms by (cases v) (simp_all add: validate_model_def model_violations_def errors_of_def)

lemma fails_validate_model:
  assumes "\<And>d. isl (init d) \<Longrightarrow> errors_of (init d) \<noteq> []"
  shows "isl (validate_model init v) \<Longrightarrow> errors_of (validate_model init v) \<noteq> []"
  using assms by (cases v) (simp_all add: validate_model_def errors_of_def)

lemma concat_errors_of_Inr: "list_all (\<lambda>r. \<not> isl r) rs \<Longrightarrow> concat (map errors_of rs) = []"
  by (induction rs) (auto simp: errors_of_def split: sum.splits)

lemma errors_of_validate_list:
  assumes "\<And>x. errors_of (validator x) = violations x"
  shows "errors_of (validate_list validator v) = list_violations violations v"
proof (cases v)
  case (JArray xs)
  define rs where "rs = map (\<lambda>(i, x). with_loc (Index i) (validator x)) (enumerate 0 xs)"
  have c: "concat (map errors_of rs)
           = concat (map (\<lambda>(i, x). at_loc (Index i) (violations x)) (enumerate 0 xs))"
    unfolding rs_def by (simp add: comp_def case_prod_unfold errors_of_with_loc assms)
  have "errors_of (validate_list validator v) = concat (map errors_of rs)"
  proof (cases "list_all (\<lambda>r. \<not> isl r) rs")
    case True
    then show ?thesis using concat_errors_of_Inr[OF True]
      by (simp add: JArray validate_list_def Let_def rs_def[symmetric] errors_of_def)
  next
    case False
    then show ?thesis
      by (simp add: JArray validate_list_def Let_def rs_def[symmetric] errors_of_def)
  qed
  then show ?thesis using c by (simp add: JArray list_violations_def)
qed (simp_all add: validate_list_def list_violations_def errors_of_def)

lemma concat_errors_of_isl:
  assumes "\<And>r. r \<in> set rs \<Longrightarrow> isl r \<Longrightarrow> errors_of r \<noteq> []"
  shows "\<not> list_all (\<lambda>r. \<not> isl r) rs \<Longrightarrow> concat (map errors_of rs) \<noteq> []"
  using assms by (induction rs) auto

lemma fails_validate_list:
  assumes "\<And>x. isl (validator x) \<Longrightarrow> errors_of (validator x) \<noteq> []"
  shows "isl (validate_list validator v) \<Longrightarrow> errors_of (validate_list validator v) \<noteq> []"
proof (cases v)
  case (JArray xs)
  define rs where "rs = map (\<lambda>(i, x). with_loc (Index i) (validator x)) (enumerate 0 xs)"
  assume i: "isl (validate_list validator v)"
  have n: "\<not> list_all (\<lambda>r. \<not> isl r) rs"
    using i by (auto simp: JArray validate_list_def Let_def rs_def[symmetric])
  have "\<And>r. r \<in> set rs \<Longrightarrow> isl r \<Longrightarrow> errors_of r \<noteq> []"
    unfolding rs_def using assms
    by (auto simp: errors_of_with_loc isl_with_loc at_loc_Nil)
  then have "concat (map errors_of rs) \<noteq> []" using n by (rule concat_errors_of_isl)
  then show ?thesis using n
    by (simp add: JArray validate_list_def Let_def rs_def[symmetric] errors_of_def)
qed (simp_all add: validate_list_def errors_of_def)

lemma errors_of_two:
  "errors_of (case (r1, r2) of (Inr a, Inr b) \<Rightarrow> Inr (f a b) | _ \<Rightarrow> Inl (errors_of r1 @ errors_of r2))
   = errors_of r1 @ errors_of r2"
  by (cases r1; cases r2) (simp_all add: errors_of_def)

lemma errors_of_Problem_validate:
  "errors_of (Problem_validate env data) = Problem_violations env data"
  unfolding Problem_validate_def Let_def errors_of_two Problem_violations_def
  by (simp add: errors_of_validate_field[OF errors_of_validate_str])

lemma errors_of_Severity_validate:
  "errors_of (Severity_validate env data) = Severity_violations env data"
  unfolding Severity_validate_def Let_def errors_of_two Severity_violations_def
  by (simp add: errors_of_validate_field[OF errors_of_validate_str]
      errors_of_validate_field[OF errors_of_validate_literal] Severity_level_literals_def)

lemma errors_of_EstimatedCost_validate:
  "errors_of (EstimatedCost_validate env data) = EstimatedCost_violations env data"
  unfolding EstimatedCost_validate_def Let_def errors_of_two EstimatedCost_violations_def
  by (simp add: errors_of_validate_field[OF errors_of_validate_str])

lemma fails_Problem_validate:
  assumes "isl (Problem_validate env data)"
  shows "errors_of (Problem_validate env data) \<noteq> []"
proof -
  let ?r1 = "validate_field data ''name'' (validate_str env)"
  let ?r2 = "validate_field data ''description'' (validate_str env)"
  have "isl ?r1 \<or> isl ?r2"
    using assms by (cases ?r1; cases ?r2) (simp_all add: Problem_validate_def Let_def)
  moreover have "isl ?r1 \<Longrightarrow> errors_of ?r1 \<noteq> []"
    by (rule fails_validate_field[OF fails_validate_str])
  moreover have "isl ?r2 \<Longrightarrow> errors_of ?r2 \<noteq> []"
    by (rule fails_validate_field[OF fails_validate_str])
  ultimately have "errors_of ?r1 \<noteq> [] \<or> errors_of ?r2 \<noteq> []" by blast
  then show ?thesis unfolding Problem_validate_def Let_def errors_of_two by simp
qed

lemma fails_Severity_validate:
  assumes "isl (Severity_validate env data)"
  shows "errors_of (Severity_validate env data) \<noteq> []"
proof -
  let ?r1 = "validate_field data ''level'' (validate_literal Severity_level_literals)"
  let ?r2 = "validate_field data ''message'' (validate_str env)"
  have "isl ?r1 \<or> isl ?r2"
    using assms by (cases ?r1; cases ?r2) (simp_all add: Severity_validate_def Let_def)
  moreover have "isl ?r1 \<Longrightarrow> errors_of ?r1 \<noteq> []"
    by (rule fails_validate_field[OF fails_validate_literal])
  moreover have "isl ?r2 \<Longrightarrow> errors_of ?r2 \<noteq> []"
    by (rule fails_validate_field[OF fails_validate_str])
  ultimately have "errors_of ?r1 \<noteq> [] \<or> errors_of ?r2 \<noteq> []" by blast
  then show ?thesis unfolding Severity_validate_def Let_def errors_of_two by simp
qed

lemma fails_EstimatedCost_validate:
  assumes "isl (EstimatedCost_validate env data)"
  shows "errors_of (EstimatedCost_validate env data) \<noteq> []"
proof -
  let ?r1 = "validate_field data ''range'' (validate_str env)"
  let ?r2 = "validate_field data ''disclaimer'' (validate_str env)"
  have "isl ?r1 \<or> isl ?r2"
    using assms by (cases ?r1; cases ?r2) (simp_all add: EstimatedCost_validate_def Let_def)
  moreover have "isl ?r1 \<Longrightarrow> errors_of ?r1 \<noteq> []"
    by (rule fails_validate_field[OF fails_validate_str])
  moreover have "isl ?r2 \<Longrightarrow> errors_of ?r2 \<noteq> []"
    by (rule fails_validate_field[OF fails_validate_str])
  ultimately have "errors_of ?r1 \<noteq> [] \<or> errors_of ?r2 \<noteq> []" by blast
  then show ?thesis unfolding EstimatedCost_validate_def Let_def errors_of_two by simp
qed

lemma Vehicle_validate_violations:
  "errors_of (Vehicle_validate env data) = Vehicle_violations env data"
  unfolding errors_of_Vehicle_validate Vehicle_violations_def
  by (simp add: errors_of_validate_field[OF errors_of_validate_str]
      errors_of_validate_field[OF errors_of_validate_int])

lemma DiagnosticReportResponse_validate_violations:
  "errors_of (DiagnosticReportResponse_validate env data) = DiagnosticReport_violations env data"
  unfolding errors_of_DiagnosticReportResponse_validate DiagnosticReport_violations_def
  by (simp add: errors_of_validate_field[OF errors_of_validate_list[OF errors_of_validate_str]]
      errors_of_validate_field[OF errors_of_validate_list[OF errors_of_validate_model[OF errors_of_Problem_validate]]]
      errors_of_validate_field[OF errors_of_validate_model[OF errors_of_Severity_validate]]
      errors_of_validate_field[OF errors_of_validate_model[OF errors_of_EstimatedCost_validate]])

lemma fails_Vehicle_validate:
  assumes "isl (Vehicle_validate env data)"
  shows "errors_of (Vehicle_validate env data) \<noteq> []"
proof -
  let ?r1 = "validate_field data ''make'' (validate_str env)"
  let ?r2 = "validate_field data ''model'' (validate_str env)"
  let ?r3 = "validate_field data ''year'' (validate_int env)"
  have "isl ?r1 \<or> isl ?r2 \<or> isl ?r3"
    using assms by (cases ?r1; cases ?r2; cases ?r3) (simp_all add: Vehicle_validate_def Let_def)
  moreover have "isl ?r1 \<Longrightarrow> errors_of ?r1 \<noteq> []"
    by (rule fails_validate_field[OF fails_validate_str])
  moreover have "isl ?r2 \<Longrightarrow> errors_of ?r2 \<noteq> []"
    by (rule fails_validate_field[OF fails_validate_str])
  moreover have "isl ?r3 \<Longrightarrow> errors_of ?r3 \<noteq> []"
    by (rule fails_validate_field[OF fails_validate_int])
  ultimately have "errors_of ?r1 \<noteq> [] \<or> errors_of ?r2 \<noteq> [] \<or> errors_of ?r3 \<noteq> []"
    by blast
  then show ?thesis unfolding errors_of_Vehicle_validate by simp
qed

lemma fails_DiagnosticReportResponse_validate:
  assumes "isl (DiagnosticReportResponse_validate env data)"
  shows "errors_of (DiagnosticReportResponse_validate env data) \<noteq> []"
proof -
  let ?r1 = "validate_field data ''potential_problems''
                 (validate_list (validate_model (Problem_validate env)))"
  let ?r2 = "validate_field data ''severity'' (validate_model (Severity_validate env))"
  let ?r3 = "validate_field data ''next_steps'' (validate_list (validate_str env))"
  let ?r4 = "validate_field data ''estimated_cost''
                 (validate_model (EstimatedCost_validate env))"
  let ?r5 = "validate_field data ''disclaimers'' (validate_list (validate_str env))"
  have "isl ?r1 \<or> isl ?r2 \<or> isl ?r3 \<or> isl ?r4 \<or> isl ?r5"
    using assms by (cases ?r1; cases ?r2; cases ?r3; cases ?r4; cases ?r5)
      (simp_all add: DiagnosticReportResponse_validate_def Let_def)
  moreover have "isl ?r1 \<Longrightarrow> errors_of ?r1 \<noteq> []"
    by (rule fails_validate_field[OF fails_validate_list[OF fails_validate_model[OF fails_Problem_validate]]])
  moreover have "isl ?r2 \<Longrightarrow> errors_of ?r2 \<noteq> []"
    by (rule fails_validate_field[OF fails_validate_model[OF fails_Severity_validate]])
  moreover have "isl ?r3 \<Longrightarrow> errors_of ?r3 \<noteq> []"
    by (rule fails_validate_field[OF fails_validate_list[OF fails_validate_str]])
  moreover have "isl ?r4 \<Longrightarrow> errors_of ?r4 \<noteq> []"
    by (rule fails_validate_field[OF fails_validate_model[OF fails_EstimatedCost_validate]])
  moreover have "isl ?r5 \<Longrightarrow> errors_of ?r5 \<noteq> []"
    by (rule fails_validate_field[OF fails_validate_list[OF fails_validate_str]])
  ultimately have "errors_of ?r1 \<noteq> [] \<or> errors_of ?r2 \<noteq> [] \<or> errors_of ?r3 \<noteq> []
      \<or> errors_of ?r4 \<noteq> [] \<or> errors_of ?r5 \<noteq> []"
    by blast
  then show ?thesis unfolding errors_of_DiagnosticReportResponse_validate by simp
qed

lemma Inl_iff_violations:
  assumes "errors_of r = w" "isl r \<Longrightarrow> errors_of r \<noteq> []"
  shows "r = Inl es \<longleftrightarrow> es = w \<and> es \<noteq> []"
  using assms by (cases r) (auto simp: errors_of_def)


lemma broken_report_violations:
  "DiagnosticReport_violations (canned_env None []) broken_report
     = [([Field ''potential_problems''], list_type),
        ([Field ''severity'', Field ''level''], literal_error),
        ([Field ''next_steps''], missing), ([Field ''estimated_cost''], missing),
        ([Field ''disclaimers''], missing)]"
  by (simp add: DiagnosticReport_violations_def field_violations_def broken_report_def
      low_severity_def list_violations_def model_violations_def Severity_violations_def
      literal_violations_def str_violations_def is_string_def at_loc_def)

lemma odd_vehicle_violations:
  "Vehicle_violations (canned_env None []) odd_vehicle
     = [([Field ''make''], string_type), ([Field ''model''], missing),
        ([Field ''year''], int_type)]"
  by (simp add: Vehicle_violations_def field_violations_def odd_vehicle_def str_violations_def
      int_violations_def is_string_def is_int_def at_loc_def canned_env_def)

text \<open>
  Claim C7, amended. Validation fails exactly when the mapping has a violation: a
  declared field that is missing, a value that is not of the declared type (a \<^verbatim>\<open>str\<close> or
  \<^verbatim>\<open>int\<close> field whose value is of another type and is not converted by pydantic, a list
  field whose value is no list, a model field whose value is no mapping, at any depth), or
  a severity level outside the three literals. The error then carries the list of all
  violations and nothing else: one entry, location and kind, for each violation, in the
  order in which the fields are declared and the elements of a list stand, and not only
  the first. Building the model raises \<^verbatim>\<open>ValidationError\<close> with that list.
\<close>

theorem validation_fails_with_all_violations:
  "(DiagnosticReportResponse_validate env data = Inl es
      \<longleftrightarrow> es = DiagnosticReport_violations env data \<and> es \<noteq> [])
   \<and> (Vehicle_validate env vdata = Inl vs
        \<longleftrightarrow> vs = Vehicle_violations env vdata \<and> vs \<noteq> [])
   \<and> (DiagnosticReport_violations env data \<noteq> []
        \<longrightarrow> construct (DiagnosticReportResponse_validate env) (JObject data)
              = Inl (ValidationError (DiagnosticReport_violations env data)))
   \<and> (Vehicle_violations env vdata \<noteq> []
        \<longrightarrow> construct (Vehicle_validate env) (JObject vdata)
              = Inl (ValidationError (Vehicle_violations env vdata)))"
proof (intro conjI impI)
  show "DiagnosticReportResponse_validate env data = Inl es
        \<longleftrightarrow> es = DiagnosticReport_violations env data \<and> es \<noteq> []"
    using DiagnosticReportResponse_validate_violations fails_DiagnosticReportResponse_validate
    by (rule Inl_iff_violations)
next
  show "Vehicle_validate env vdata = Inl vs \<longleftrightarrow> vs = Vehicle_violations env vdata \<and> vs \<noteq> []"
    using Vehicle_validate_violations fails_Vehicle_validate by (rule Inl_iff_violations)
next
  assume "DiagnosticReport_violations env data \<noteq> []"
  then show "construct (DiagnosticReportResponse_validate env) (JObject data)
              = Inl (ValidationError (DiagnosticReport_violations env data))"
    using construct_errors[of "DiagnosticReportResponse_validate env" data]
    by (simp add: DiagnosticReportResponse_validate_violations)
next
  assume "Vehicle_violations env vdata \<noteq> []"
  then show "construct (Vehicle_validate env) (JObject vdata)
              = Inl (ValidationError (Vehicle_violations env vdata))"
    using construct_errors[of "Vehicle_validate env" vdata]
    by (simp add: Vehicle_validate_violations)
qed

text \<open>
  A report with a wrong type, a level outside the literals and three missing fields, and a
  vehicle with two wrong types and a missing field: all violations, in the order of the
  fields.
\<close>

theorem validation_fails_with_all_violations_witness:
  "DiagnosticReport_violations (canned_env None []) broken_report
     = [([Field ''potential_problems''], list_type),
        ([Field ''severity'', Field ''level''], literal_error),
        ([Field ''next_steps''], missing), ([Field ''estimated_cost''], missing),
        ([Field ''disclaimers''], missing)]
   \<and> Vehicle_violations (canned_env None []) odd_vehicle
     = [([Field ''make''], string_type), ([Field ''model''], missing),
        ([Field ''year''], int_type)]
   \<and> DiagnosticReportResponse_validate (canned_env None []) broken_report
     = Inl [([Field ''potential_problems''], list_type),
            ([Field ''severity'', Field ''level''], literal_error),
            ([Field ''next_steps''], missing), ([Field ''estimated_cost''], missing),
            ([Field ''disclaimers''], missing)]
   \<and> Vehicle_validate (canned_env None []) odd_vehicle
     = Inl [([Field ''make''], string_type), ([Field ''model''], missing),
            ([Field ''year''], int_type)]
   \<and> construct (DiagnosticReportResponse_validate (canned_env None [])) (JObject broken_report)
     = Inl (ValidationError
         [([Field ''potential_problems''], list_type),
          ([Field ''severity'', Field ''level''], literal_error),
          ([Field ''next_steps''], missing), ([Field ''estimated_cost''], missing),
          ([Field ''disclaimers''], missing)])
   \<and> construct (Vehicle_validate (canned_env None [])) (JObject odd_vehicle)
     = Inl (ValidationError
         [([Field ''make''], string_type), ([Field ''model''], missing),
          ([Field ''year''], int_type)])"
  using validation_fails_with_all_violations[of "canned_env None []" broken_report
      "DiagnosticReport_violations (canned_env None []) broken_report" odd_vehicle
      "Vehicle_violations (canned_env None []) odd_vehicle"]
  by (simp add: broken_report_violations odd_vehicle_violations)


section \<open>The handlers: \<^verbatim>\<open>main.py\<close>\<close>

lemma diagnose_from_conversation_after:
  "diagnose_from_conversation env request =
     after_gateway (DiagnosticReportResponse_validate env) ''Failed to validate LLM response: ''
       malformed_report (get_diagnostic_from_llm env (vehicle request) (history request))"
  by (simp add: diagnose_from_conversation_def after_gateway_def)

lemma diagnose_from_image_after:
  "diagnose_from_image env mk md yr prompt file =
     after_gateway (DiagnosticReportResponse_validate env) ''Failed to validate LLM response: ''
       malformed_report
       (get_image_diagnostic_from_llm env \<lparr>make' = mk, model = md, year = yr\<rparr> prompt file)"
  by (simp add: diagnose_from_image_def after_gateway_def)

lemma identify_vehicle_from_image_after:
  "identify_vehicle_from_image env file =
     after_gateway (Vehicle_validate env) ''Failed to validate vehicle response: ''
       malformed_vehicle (get_vehicle_info_from_image env file)"
  by (simp add: identify_vehicle_from_image_def after_gateway_def)

lemma identify_vehicle_from_text_after:
  "identify_vehicle_from_text env request =
     after_gateway (Vehicle_validate env) ''Failed to validate vehicle response: ''
       malformed_vehicle (get_vehicle_info_from_text env (query request))"
  by (simp add: identify_vehicle_from_text_def after_gateway_def)

lemmas handlers_after =
  diagnose_from_conversation_after diagnose_from_image_after
  identify_vehicle_from_image_after identify_vehicle_from_text_after

lemma after_gateway_error_key:
  assumes "snd g = Inr (JObject data)" "fmlookup data ''error'' = Some detail"
  shows "after_gateway init p m g = (fst g, Inl (HTTPException 500 detail))"
  using assms by (cases g) (simp add: after_gateway_def py_in_def py_getitem_def fmdomI)

lemma after_gateway_invalid:
  assumes "snd g = Inr llm_result" "py_in ''error'' llm_result = Inr False"
    "construct init llm_result = Inl e"
  shows "after_gateway init p m g = (fst g @ [PrintExc p e], Inl (HTTPException 500 (JString m)))"
  using assms by (cases g) (simp add: after_gateway_def)

lemma after_gateway_valid:
  assumes "snd g = Inr llm_result" "py_in ''error'' llm_result = Inr False"
    "construct init llm_result = Inr r"
  shows "after_gateway init p m g = (fst g, Inr r)"
  using assms by (cases g) (simp add: after_gateway_def)

lemma after_gateway_not_iterable:
  assumes "snd g = Inr llm_result" "py_in ''error'' llm_result = Inl e"
  shows "after_gateway init p m g = (fst g, Inl e)"
  using assms by (cases g) (simp add: after_gateway_def)

lemma after_gateway_success:
  assumes "snd (after_gateway init p m g) = Inr r"
  shows "\<exists>data. snd g = Inr (JObject data) \<and> ''error'' |\<notin>| fmdom data \<and> init data = Inr r"
proof (cases g)
  case (Pair out res)
  show ?thesis
  proof (cases res)
    case (Inl e)
    then show ?thesis using assms Pair by (simp add: after_gateway_def)
  next
    case (Inr j)
    show ?thesis
    proof (cases "py_in ''error'' j")
      case (Inl e)
      then show ?thesis using assms Pair Inr by (simp add: after_gateway_def)
    next
      case in_res: (Inr b)
      show ?thesis
      proof (cases b)
        case True
        then show ?thesis using assms Pair Inr in_res
          by (simp add: after_gateway_def split: sum.splits)
      next
        case False
        then have c: "construct init j = Inr r"
          using assms Pair Inr in_res by (simp add: after_gateway_def split: sum.splits)
        then obtain data where j: "j = JObject data"
          by (cases j) (simp_all add: construct_def)
        then have "init data = Inr r" using c by (simp add: construct_def split: sum.splits)
        moreover have "''error'' |\<notin>| fmdom data"
          using in_res False j by (simp add: py_in_def)
        ultimately show ?thesis using Pair Inr j by simp
      qed
    qed
  qed
qed

lemma py_in_error_dict: "py_in ''error'' (error_dict msg) = Inr True"
  by (simp add: py_in_def error_dict_def)

lemma after_gateway_error_dict:
  assumes "snd g = Inr (error_dict msg)"
  shows "after_gateway init p m g = (fst g, Inl (HTTPException 500 (JString msg)))"
  using assms unfolding error_dict_def by (rule after_gateway_error_key) simp

lemma malformed_not_gateway_message:
  "malformed_report \<notin> set [diagnostic_failed, image_diagnostic_failed, vin_failed, text_failed]"
  "malformed_vehicle \<notin> set [diagnostic_failed, image_diagnostic_failed, vin_failed, text_failed]"
  by (simp_all add: malformed_report_def malformed_vehicle_def diagnostic_failed_def
      image_diagnostic_failed_def vin_failed_def text_failed_def)

lemma py_in_motor_mount: "py_in ''error'' (JObject (fmap_of_list motor_mount_fields)) = Inr False"
  by (simp add: py_in_def motor_mount_fields_def)

text \<open>
  Claim C6. When the gateway function returns its failure dict \<^verbatim>\<open>{"error": msg}\<close>, each
  handler raises \<^verbatim>\<open>HTTPException\<close> with status 500 and the message of the gateway. Nothing
  is printed beyond the lines of the gateway, and the outcome is the same for every
  behaviour of the validation: no model is built.
\<close>

theorem gateway_failure_surfaced_immediately:
  "(snd (get_diagnostic_from_llm env (vehicle request) (history request)) = Inr (error_dict msg)
      \<longrightarrow> diagnose_from_conversation env request
            = (fst (get_diagnostic_from_llm env (vehicle request) (history request)),
               Inl (HTTPException 500 (JString msg))))
   \<and> (snd (get_image_diagnostic_from_llm env \<lparr>make' = mk, model = md, year = yr\<rparr> prompt file)
        = Inr (error_dict msg)
      \<longrightarrow> diagnose_from_image env mk md yr prompt file
            = (fst (get_image_diagnostic_from_llm env \<lparr>make' = mk, model = md, year = yr\<rparr>
                      prompt file),
               Inl (HTTPException 500 (JString msg))))
   \<and> (snd (get_vehicle_info_from_image env file) = Inr (error_dict msg)
      \<longrightarrow> identify_vehicle_from_image env file
            = (fst (get_vehicle_info_from_image env file), Inl (HTTPException 500 (JString msg))))
   \<and> (snd (get_vehicle_info_from_text env (query text_request)) = Inr (error_dict msg)
      \<longrightarrow> identify_vehicle_from_text env text_request
            = (fst (get_vehicle_info_from_text env (query text_request)),
               Inl (HTTPException 500 (JString msg))))"
  unfolding handlers_after by (simp add: after_gateway_error_dict)

text \<open>The four handlers on a reply that has no text.\<close>

theorem gateway_failure_surfaced_immediately_witness:
  "diagnose_from_conversation (canned_env None []) honda_request
     = ([Print ''--- Sending prompt to LLM ---'', Print ''--- Received response from LLM ---'',
         PrintExc ''Error parsing LLM response: '' AttributeError],
        Inl (HTTPException 500 (JString diagnostic_failed)))
   \<and> diagnose_from_image (canned_env None []) ''Honda'' ''Civic'' 2015 ''what is this?'' [1, 2, 3]
     = ([Print ''--- Sending image and prompt to LLM ---'',
         Print ''--- Received response from LLM ---'',
         PrintExc ''Error parsing LLM response: '' AttributeError],
        Inl (HTTPException 500 (JString image_diagnostic_failed)))
   \<and> identify_vehicle_from_image (canned_env None []) [1, 2, 3]
     = ([Print ''--- Sending VIN image to LLM ---'',
         Print ''--- Received VIN response from LLM ---'',
         PrintExc ''Error parsing LLM response for VIN: '' AttributeError],
        Inl (HTTPException 500 (JString vin_failed)))
   \<and> snd (identify_vehicle_from_text (canned_env None []) camry_request)
     = Inl (HTTPException 500 (JString text_failed))"
proof -
  have 1: "get_diagnostic_from_llm (canned_env None []) (vehicle honda_request)
             (history honda_request)
           = ([Print ''--- Sending prompt to LLM ---'', Print ''--- Received response from LLM ---'',
               PrintExc ''Error parsing LLM response: '' AttributeError],
              Inr (error_dict diagnostic_failed))"
    by (simp add: get_diagnostic_from_llm_def canned_env_def try_loads_def)
  have 2: "get_image_diagnostic_from_llm (canned_env None [])
             \<lparr>make' = ''Honda'', model = ''Civic'', year = 2015\<rparr> ''what is this?'' [1, 2, 3]
           = ([Print ''--- Sending image and prompt to LLM ---'',
               Print ''--- Received response from LLM ---'',
               PrintExc ''Error parsing LLM response: '' AttributeError],
              Inr (error_dict image_diagnostic_failed))"
    by (simp add: get_image_diagnostic_from_llm_def canned_env_def try_loads_def)
  have 3: "get_vehicle_info_from_image (canned_env None []) [1, 2, 3]
           = ([Print ''--- Sending VIN image to LLM ---'',
               Print ''--- Received VIN response from LLM ---'',
               PrintExc ''Error parsing LLM response for VIN: '' AttributeError],
              Inr (error_dict vin_failed))"
    by (simp add: get_vehicle_info_from_image_def canned_env_def try_loads_def)
  have 4: "snd (get_vehicle_info_from_text (canned_env None []) (query camry_request))
           = Inr (error_dict text_failed)"
    by (simp add: get_vehicle_info_from_text_def canned_env_def try_loads_def)
  show ?thesis
    using gateway_failure_surfaced_immediately[of "canned_env None []" honda_request
        diagnostic_failed]
      gateway_failure_surfaced_immediately[of "canned_env None []" _ image_diagnostic_failed
        "''Honda''" "''Civic''" 2015 "''what is this?''" "[1, 2, 3]"]
      gateway_failure_surfaced_immediately[of "canned_env None []" _ vin_failed _ _ _ _
        "[1, 2, 3]"]
      gateway_failure_surfaced_immediately[of "canned_env None []" _ text_failed _ _ _ _ _
        camry_request]
    by (simp add: 1 2 3 4)
qed

text \<open>
  Claim C10. When the parsed JSON is an object with the key \<^verbatim>\<open>"error"\<close>, each handler
  raises \<^verbatim>\<open>HTTPException\<close> with status 500 and, as detail, the value stored under that key,
  whatever else the object holds.
\<close>

theorem error_key_is_gateway_failure:
  assumes "fmlookup data ''error'' = Some detail"
  shows
  "(snd (get_diagnostic_from_llm env (vehicle request) (history request)) = Inr (JObject data)
      \<longrightarrow> diagnose_from_conversation env request
            = (fst (get_diagnostic_from_llm env (vehicle request) (history request)),
               Inl (HTTPException 500 detail)))
   \<and> (snd (get_image_diagnostic_from_llm env \<lparr>make' = mk, model = md, year = yr\<rparr> prompt file)
        = Inr (JObject data)
      \<longrightarrow> diagnose_from_image env mk md yr prompt file
            = (fst (get_image_diagnostic_from_llm env \<lparr>make' = mk, model = md, year = yr\<rparr>
                      prompt file),
               Inl (HTTPException 500 detail)))
   \<and> (snd (get_vehicle_info_from_image env file) = Inr (JObject data)
      \<longrightarrow> identify_vehicle_from_image env file
            = (fst (get_vehicle_info_from_image env file), Inl (HTTPException 500 detail)))
   \<and> (snd (get_vehicle_info_from_text env (query text_request)) = Inr (JObject data)
      \<longrightarrow> identify_vehicle_from_text env text_request
            = (fst (get_vehicle_info_from_text env (query text_request)),
               Inl (HTTPException 500 detail)))"
  unfolding handlers_after by (simp add: after_gateway_error_key[OF _ assms])

text \<open>
  The four handlers on an object that holds a complete, valid report next to the
  \<^verbatim>\<open>"error"\<close> entry: the report would validate, and is not returned.
\<close>

theorem error_key_is_gateway_failure_witness:
  "fmlookup (fmap_of_list quota_fields) ''error'' = Some (JString ''quota exceeded'')
   \<and> DiagnosticReportResponse_validate (replies quota_text (JObject (fmap_of_list quota_fields)))
         (fmap_of_list quota_fields)
       = Inr motor_mount_report
   \<and> snd (diagnose_from_conversation (replies quota_text (JObject (fmap_of_list quota_fields)))
            honda_request)
       = Inl (HTTPException 500 (JString ''quota exceeded''))
   \<and> snd (diagnose_from_image (replies quota_text (JObject (fmap_of_list quota_fields)))
            ''Honda'' ''Civic'' 2015 ''what is this?'' [1, 2, 3])
       = Inl (HTTPException 500 (JString ''quota exceeded''))
   \<and> snd (identify_vehicle_from_image (replies quota_text (JObject (fmap_of_list quota_fields)))
            [1, 2, 3])
       = Inl (HTTPException 500 (JString ''quota exceeded''))
   \<and> snd (identify_vehicle_from_text (replies quota_text (JObject (fmap_of_list quota_fields)))
            camry_request)
       = Inl (HTTPException 500 (JString ''quota exceeded''))"
proof -
  have k: "fmlookup (fmap_of_list quota_fields) ''error'' = Some (JString ''quota exceeded'')"
    by (simp add: quota_fields_def)
  note g = replies_gateways[OF raw_json_quota_text, of "JObject (fmap_of_list quota_fields)"]
  show ?thesis
    using k validate_quota_fields
      error_key_is_gateway_failure[OF k,
        of "replies quota_text (JObject (fmap_of_list quota_fields))"
           honda_request "''Honda''" "''Civic''" 2015 "''what is this?''" "[1, 2, 3]" camry_request]
    by (simp add: g)
qed

text \<open>
  Claim C3, as stated, fails on the reply \<^verbatim>\<open>{"error":"boom"}\<close>: the gateway parses it, it
  does not match the schema (all five fields are missing), and the handler answers with
  the detail \<^verbatim>\<open>boom\<close>, not with the malformed-report message.
\<close>

theorem error_entry_not_reported_as_malformed_counterexample:
  "snd (get_diagnostic_from_llm (replies ''{\"error\":\"boom\"}'' boom)
          (vehicle honda_request) (history honda_request)) = Inr boom
   \<and> construct (DiagnosticReportResponse_validate (replies ''{\"error\":\"boom\"}'' boom)) boom
     = Inl (ValidationError
         [([Field ''potential_problems''], missing), ([Field ''severity''], missing),
          ([Field ''next_steps''], missing), ([Field ''estimated_cost''], missing),
          ([Field ''disclaimers''], missing)])
   \<and> snd (diagnose_from_conversation (replies ''{\"error\":\"boom\"}'' boom) honda_request)
     = Inl (HTTPException 500 (JString ''boom''))
   \<and> JString ''boom'' \<noteq> JString malformed_report"
proof -
  note g = replies_gateways[OF raw_json_small(2), of boom]
  have "after_gateway init p m gw = (fst gw, Inl (HTTPException 500 (JString ''boom'')))"
    if "snd gw = Inr boom" for init :: "(string, json) fmap \<Rightarrow> line_errors + DiagnosticReportResponse"
      and p m gw
    using that unfolding boom_def by (rule after_gateway_error_key) simp
  then show ?thesis
    by (simp add: g diagnose_from_conversation_after construct_boom malformed_report_def)
qed

text \<open>
  Claim C3, amended. Let the test \<^verbatim>\<open>"error" in llm_result\<close> of the handler be false: the
  parsed JSON is an object without the key \<^verbatim>\<open>"error"\<close> (or an array or a string in which
  \<^verbatim>\<open>"error"\<close> does not occur). If building the model from it fails, the handler prints
  the exception and raises \<^verbatim>\<open>HTTPException\<close> with status 500 and the malformed-report
  message (the diagnose handlers) or the malformed-vehicle message (the identify
  handlers); both messages differ from the four messages of the gateway.
\<close>

theorem schema_mismatch_surfaced_as_malformed:
  assumes "py_in ''error'' llm_result = Inr False"
  shows
  "(snd (get_diagnostic_from_llm env (vehicle request) (history request)) = Inr llm_result
      \<and> construct (DiagnosticReportResponse_validate env) llm_result = Inl e
      \<longrightarrow> diagnose_from_conversation env request
            = (fst (get_diagnostic_from_llm env (vehicle request) (history request))
                 @ [PrintExc ''Failed to validate LLM response: '' e],
               Inl (HTTPException 500 (JString malformed_report))))
   \<and> (snd (get_image_diagnostic_from_llm env \<lparr>make' = mk, model = md, year = yr\<rparr> prompt file)
        = Inr llm_result
      \<and> construct (DiagnosticReportResponse_validate env) llm_result = Inl e
      \<longrightarrow> diagnose_from_image env mk md yr prompt file
            = (fst (get_image_diagnostic_from_llm env \<lparr>make' = mk, model = md, year = yr\<rparr>
                      prompt file)
                 @ [PrintExc ''Failed to validate LLM response: '' e],
               Inl (HTTPException 500 (JString malformed_report))))
   \<and> (snd (get_vehicle_info_from_image env file) = Inr llm_result
      \<and> construct (Vehicle_validate env) llm_result = Inl e
      \<longrightarrow> identify_vehicle_from_image env file
            = (fst (get_vehicle_info_from_image env file)
                 @ [PrintExc ''Failed to validate vehicle response: '' e],
               Inl (HTTPException 500 (JString malformed_vehicle))))
   \<and> (snd (get_vehicle_info_from_text env (query text_request)) = Inr llm_result
      \<and> construct (Vehicle_validate env) llm_result = Inl e
      \<longrightarrow> identify_vehicle_from_text env text_request
            = (fst (get_vehicle_info_from_text env (query text_request))
                 @ [PrintExc ''Failed to validate vehicle response: '' e],
               Inl (HTTPException 500 (JString malformed_vehicle))))
   \<and> malformed_report \<notin> set [diagnostic_failed, image_diagnostic_failed, vin_failed, text_failed]
   \<and> malformed_vehicle \<notin> set [diagnostic_failed, image_diagnostic_failed, vin_failed, text_failed]"
  unfolding handlers_after
  using malformed_not_gateway_message by (simp add: after_gateway_invalid[OF _ assms])

text \<open>The four handlers on the reply \<^verbatim>\<open>{"foo":"bar"}\<close> of the specification.\<close>

theorem schema_mismatch_surfaced_as_malformed_witness:
  "py_in ''error'' foo_bar = Inr False
   \<and> snd (diagnose_from_conversation (replies ''{\"foo\":\"bar\"}'' foo_bar) honda_request)
       = Inl (HTTPException 500 (JString malformed_report))
   \<and> snd (diagnose_from_image (replies ''{\"foo\":\"bar\"}'' foo_bar)
            ''Honda'' ''Civic'' 2015 ''what is this?'' [1, 2, 3])
       = Inl (HTTPException 500 (JString malformed_report))
   \<and> snd (identify_vehicle_from_image (replies ''{\"foo\":\"bar\"}'' foo_bar) [1, 2, 3])
       = Inl (HTTPException 500 (JString malformed_vehicle))
   \<and> snd (identify_vehicle_from_text (replies ''{\"foo\":\"bar\"}'' foo_bar) camry_request)
       = Inl (HTTPException 500 (JString malformed_vehicle))"
proof -
  have k: "py_in ''error'' foo_bar = Inr False"
    by (simp add: py_in_def foo_bar_def)
  note g = replies_gateways[OF raw_json_small(1), of foo_bar]
  show ?thesis
    using k
      schema_mismatch_surfaced_as_malformed[OF k, of "replies ''{\"foo\":\"bar\"}'' foo_bar"
           honda_request _ "''Honda''" "''Civic''" 2015 "''what is this?''" "[1, 2, 3]"]
      schema_mismatch_surfaced_as_malformed[OF k, of "replies ''{\"foo\":\"bar\"}'' foo_bar"
           _ _ _ _ _ _ "[1, 2, 3]" camry_request]
    by (simp add: g construct_foo_bar construct_foo_bar_vehicle)
qed

text \<open>
  Claim C8, as stated, fails on the replies \<^verbatim>\<open>{"error":"boom"}\<close> and \<^verbatim>\<open>[]\<close>. Both parse as
  JSON and from neither the report can be built, for different reasons (five fields are
  missing; the value is no mapping). The handler answers the first with the detail
  \<^verbatim>\<open>boom\<close> and the second with the malformed-report message.
\<close>

theorem error_entry_answered_differently_counterexample:
  "snd (get_diagnostic_from_llm (replies ''{\"error\":\"boom\"}'' boom)
          (vehicle honda_request) (history honda_request)) = Inr boom
   \<and> snd (get_diagnostic_from_llm (replies ''[]'' (JArray []))
            (vehicle honda_request) (history honda_request)) = Inr (JArray [])
   \<and> construct (DiagnosticReportResponse_validate (replies ''{\"error\":\"boom\"}'' boom)) boom
     = Inl (ValidationError
         [([Field ''potential_problems''], missing), ([Field ''severity''], missing),
          ([Field ''next_steps''], missing), ([Field ''estimated_cost''], missing),
          ([Field ''disclaimers''], missing)])
   \<and> construct (DiagnosticReportResponse_validate (replies ''[]'' (JArray []))) (JArray [])
     = Inl TypeError
   \<and> snd (diagnose_from_conversation (replies ''{\"error\":\"boom\"}'' boom) honda_request)
     = Inl (HTTPException 500 (JString ''boom''))
   \<and> snd (diagnose_from_conversation (replies ''[]'' (JArray [])) honda_request)
     = Inl (HTTPException 500 (JString malformed_report))
   \<and> JString ''boom'' \<noteq> JString malformed_report"
proof -
  note g = replies_gateways[OF raw_json_small(2), of boom]
  note h = replies_gateways[OF raw_json_small(3), of "JArray []"]
  have k: "after_gateway init p m gw = (fst gw, Inl (HTTPException 500 (JString ''boom'')))"
    if "snd gw = Inr boom"
    for init :: "(string, json) fmap \<Rightarrow> line_errors + DiagnosticReportResponse" and p m gw
    using that unfolding boom_def by (rule after_gateway_error_key) simp
  have "snd (diagnose_from_conversation (replies ''{\"error\":\"boom\"}'' boom) honda_request)
        = Inl (HTTPException 500 (JString ''boom''))"
    unfolding diagnose_from_conversation_after by (simp add: k[OF g(1)])
  moreover have "py_in ''error'' (JArray []) = Inr False"
    by (simp add: py_in_def)
  then have "snd (diagnose_from_conversation (replies ''[]'' (JArray [])) honda_request)
        = Inl (HTTPException 500 (JString malformed_report))"
    unfolding diagnose_from_conversation_after
    by (simp add: after_gateway_invalid[OF h(1) _ construct_empty_array])
  ultimately show ?thesis
    by (simp add: g h construct_boom construct_empty_array malformed_report_def)
qed

text \<open>
  Claim C8, amended. Take two runs of a handler on results for which the test
  \<^verbatim>\<open>"error" in llm_result\<close> of the handler is false, and in which building the model
  fails, for whatever reasons \<open>e1\<close> and \<open>e2\<close>. Both runs raise the same \<^verbatim>\<open>HTTPException\<close>,
  with status 500 and the fixed malformed-data message; the reason of each run appears
  only in the last line that the run prints.
\<close>

theorem validation_failures_look_alike:
  assumes "py_in ''error'' j1 = Inr False" and "py_in ''error'' j2 = Inr False"
  shows
  "(snd (get_diagnostic_from_llm env1 (vehicle request1) (history request1)) = Inr j1
      \<and> snd (get_diagnostic_from_llm env2 (vehicle request2) (history request2)) = Inr j2
      \<and> construct (DiagnosticReportResponse_validate env1) j1 = Inl e1
      \<and> construct (DiagnosticReportResponse_validate env2) j2 = Inl e2
      \<longrightarrow> snd (diagnose_from_conversation env1 request1)
            = Inl (HTTPException 500 (JString malformed_report))
          \<and> snd (diagnose_from_conversation env2 request2)
            = Inl (HTTPException 500 (JString malformed_report))
          \<and> last (fst (diagnose_from_conversation env1 request1))
            = PrintExc ''Failed to validate LLM response: '' e1
          \<and> last (fst (diagnose_from_conversation env2 request2))
            = PrintExc ''Failed to validate LLM response: '' e2)
   \<and> (snd (get_image_diagnostic_from_llm env1 \<lparr>make' = mk1, model = md1, year = yr1\<rparr>
              prompt1 file1) = Inr j1
      \<and> snd (get_image_diagnostic_from_llm env2 \<lparr>make' = mk2, model = md2, year = yr2\<rparr>
              prompt2 file2) = Inr j2
      \<and> construct (DiagnosticReportResponse_validate env1) j1 = Inl e1
      \<and> construct (DiagnosticReportResponse_validate env2) j2 = Inl e2
      \<longrightarrow> snd (diagnose_from_image env1 mk1 md1 yr1 prompt1 file1)
            = Inl (HTTPException 500 (JString malformed_report))
          \<and> snd (diagnose_from_image env2 mk2 md2 yr2 prompt2 file2)
            = Inl (HTTPException 500 (JString malformed_report))
          \<and> last (fst (diagnose_from_image env1 mk1 md1 yr1 prompt1 file1))
            = PrintExc ''Failed to validate LLM response: '' e1
          \<and> last (fst (diagnose_from_image env2 mk2 md2 yr2 prompt2 file2))
            = PrintExc ''Failed to validate LLM response: '' e2)
   \<and> (snd (get_vehicle_info_from_image env1 file1) = Inr j1
      \<and> snd (get_vehicle_info_from_image env2 file2) = Inr j2
      \<and> construct (Vehicle_validate env1) j1 = Inl e1
      \<and> construct (Vehicle_validate env2) j2 = Inl e2
      \<longrightarrow> snd (identify_vehicle_from_image env1 file1)
            = Inl (HTTPException 500 (JString malformed_vehicle))
          \<and> snd (identify_vehicle_from_image env2 file2)
            = Inl (HTTPException 500 (JString malformed_vehicle))
          \<and> last (fst (identify_vehicle_from_image env1 file1))
            = PrintExc ''Failed to validate vehicle response: '' e1
          \<and> last (fst (identify_vehicle_from_image env2 file2))
            = PrintExc ''Failed to validate vehicle response: '' e2)
   \<and> (snd (get_vehicle_info_from_text env1 (query text_request1)) = Inr j1
      \<and> snd (get_vehicle_info_from_text env2 (query text_request2)) = Inr j2
      \<and> construct (Vehicle_validate env1) j1 = Inl e1
      \<and> construct (Vehicle_validate env2) j2 = Inl e2
      \<longrightarrow> snd (identify_vehicle_from_text env1 text_request1)
            = Inl (HTTPException 500 (JString malformed_vehicle))
          \<and> snd (identify_vehicle_from_text env2 text_request2)
            = Inl (HTTPException 500 (JString malformed_vehicle))
          \<and> last (fst (identify_vehicle_from_text env1 text_request1))
            = PrintExc ''Failed to validate vehicle response: '' e1
          \<and> last (fst (identify_vehicle_from_text env2 text_request2))
            = PrintExc ''Failed to validate vehicle response: '' e2)"
  unfolding handlers_after
  by (simp add: after_gateway_invalid[OF _ assms(1)] after_gateway_invalid[OF _ assms(2)])

text \<open>
  Two replies that fail for different reasons, \<^verbatim>\<open>{"foo":"bar"}\<close> (fields missing) and
  \<^verbatim>\<open>[]\<close> (not a mapping): the same answer, different lines in the log.
\<close>

theorem validation_failures_look_alike_witness:
  "py_in ''error'' foo_bar = Inr False \<and> py_in ''error'' (JArray []) = Inr False
   \<and> snd (diagnose_from_conversation (replies ''{\"foo\":\"bar\"}'' foo_bar) honda_request)
       = snd (diagnose_from_conversation (replies ''[]'' (JArray [])) honda_request)
   \<and> last (fst (diagnose_from_conversation (replies ''{\"foo\":\"bar\"}'' foo_bar) honda_request))
       = PrintExc ''Failed to validate LLM response: ''
           (ValidationError
              [([Field ''potential_problems''], missing), ([Field ''severity''], missing),
               ([Field ''next_steps''], missing), ([Field ''estimated_cost''], missing),
               ([Field ''disclaimers''], missing)])
   \<and> last (fst (diagnose_from_conversation (replies ''[]'' (JArray [])) honda_request))
       = PrintExc ''Failed to validate LLM response: '' TypeError
   \<and> snd (diagnose_from_image (replies ''{\"foo\":\"bar\"}'' foo_bar)
            ''Honda'' ''Civic'' 2015 ''what is this?'' [1, 2, 3])
       = snd (diagnose_from_image (replies ''[]'' (JArray []))
            ''Honda'' ''Civic'' 2015 ''what is this?'' [1, 2, 3])
   \<and> snd (identify_vehicle_from_image (replies ''{\"foo\":\"bar\"}'' foo_bar) [1, 2, 3])
       = snd (identify_vehicle_from_image (replies ''[]'' (JArray [])) [1, 2, 3])
   \<and> snd (identify_vehicle_from_text (replies ''{\"foo\":\"bar\"}'' foo_bar) camry_request)
       = snd (identify_vehicle_from_text (replies ''[]'' (JArray [])) camry_request)
   \<and> last (fst (identify_vehicle_from_text (replies ''{\"foo\":\"bar\"}'' foo_bar) camry_request))
       = PrintExc ''Failed to validate vehicle response: ''
           (ValidationError
              [([Field ''make''], missing), ([Field ''model''], missing),
               ([Field ''year''], missing)])
   \<and> last (fst (identify_vehicle_from_text (replies ''[]'' (JArray [])) camry_request))
       = PrintExc ''Failed to validate vehicle response: '' TypeError"
proof -
  have k1: "py_in ''error'' foo_bar = Inr False" by (simp add: py_in_def foo_bar_def)
  have k2: "py_in ''error'' (JArray []) = Inr False" by (simp add: py_in_def)
  note g1 = replies_gateways[OF raw_json_small(1), of foo_bar]
  note g2 = replies_gateways[OF raw_json_small(3), of "JArray []"]
  show ?thesis
    using k1 k2
      validation_failures_look_alike[OF k1 k2,
        of "replies ''{\"foo\":\"bar\"}'' foo_bar" honda_request
           "replies ''[]'' (JArray [])" honda_request _ TypeError
           "''Honda''" "''Civic''" 2015 "''what is this?''" "[1, 2, 3]"
           "''Honda''" "''Civic''" 2015 "''what is this?''" "[1, 2, 3]"]
      validation_failures_look_alike[OF k1 k2,
        of "replies ''{\"foo\":\"bar\"}'' foo_bar" _
           "replies ''[]'' (JArray [])" _ _ TypeError
           _ _ _ _ "[1, 2, 3]" _ _ _ _ "[1, 2, 3]" camry_request camry_request]
    by (simp add: g1 g2 construct_foo_bar construct_foo_bar_vehicle construct_empty_array)
qed

text \<open>
  Claim C9. For the request of the Honda Civic 2015 with the one turn of the user, when
  the gateway returns the motor-mount report of the specification, the handler returns
  the validated report, which serialises to exactly the object that the gateway returned.
\<close>

theorem honda_scenario_report_returned_unchanged:
  assumes "snd (get_diagnostic_from_llm env (vehicle honda_request) (history honda_request))
             = Inr (JObject (fmap_of_list motor_mount_fields))"
  shows "diagnose_from_conversation env honda_request
           = (fst (get_diagnostic_from_llm env (vehicle honda_request) (history honda_request)),
              Inr motor_mount_report)
         \<and> DiagnosticReportResponse_dump motor_mount_report
             = JObject (fmap_of_list motor_mount_fields)"
  unfolding diagnose_from_conversation_after
  using after_gateway_valid[OF assms py_in_motor_mount construct_motor_mount] dump_motor_mount
  by simp

text \<open>The scenario run with a language model that replies the report as text.\<close>

theorem honda_scenario_report_returned_unchanged_witness:
  "get_diagnostic_from_llm (replies motor_mount_text (JObject (fmap_of_list motor_mount_fields)))
       (vehicle honda_request) (history honda_request)
     = ([Print ''--- Sending prompt to LLM ---'', Print ''--- Received response from LLM ---''],
        Inr (JObject (fmap_of_list motor_mount_fields)))
   \<and> diagnose_from_conversation
         (replies motor_mount_text (JObject (fmap_of_list motor_mount_fields))) honda_request
     = ([Print ''--- Sending prompt to LLM ---'', Print ''--- Received response from LLM ---''],
        Inr motor_mount_report)"
proof -
  have g: "get_diagnostic_from_llm
             (replies motor_mount_text (JObject (fmap_of_list motor_mount_fields)))
             (vehicle honda_request) (history honda_request)
           = ([Print ''--- Sending prompt to LLM ---'', Print ''--- Received response from LLM ---''],
              Inr (JObject (fmap_of_list motor_mount_fields)))"
    by (simp add: get_diagnostic_from_llm_def replies_def canned_env_def try_loads_def
        raw_json_motor_mount_text)
  show ?thesis
    using honda_scenario_report_returned_unchanged[
        of "replies motor_mount_text (JObject (fmap_of_list motor_mount_fields))"]
    by (simp add: g)
qed

lemma only_validated_report_returned:
  assumes "snd (diagnose_from_conversation env request) = Inr r"
  shows "\<exists>data. snd (get_diagnostic_from_llm env (vehicle request) (history request))
              = Inr (JObject data)
          \<and> DiagnosticReportResponse_validate env data = Inr r
          \<and> level (severity r) \<in> set Severity_level_literals"
proof -
  obtain data where
    "snd (get_diagnostic_from_llm env (vehicle request) (history request)) = Inr (JObject data)"
    "DiagnosticReportResponse_validate env data = Inr r"
    using after_gateway_success[OF assms[unfolded diagnose_from_conversation_after]] by blast
  then show ?thesis using validated_report_level by blast
qed

lemma only_validated_report_returned_image:
  assumes "snd (diagnose_from_image env mk md yr prompt file) = Inr r"
  shows "\<exists>data. snd (get_image_diagnostic_from_llm env \<lparr>make' = mk, model = md, year = yr\<rparr>
                   prompt file) = Inr (JObject data)
          \<and> DiagnosticReportResponse_validate env data = Inr r
          \<and> level (severity r) \<in> set Severity_level_literals"
proof -
  obtain data where
    "snd (get_image_diagnostic_from_llm env \<lparr>make' = mk, model = md, year = yr\<rparr> prompt file)
       = Inr (JObject data)"
    "DiagnosticReportResponse_validate env data = Inr r"
    using after_gateway_success[OF assms[unfolded diagnose_from_image_after]] by blast
  then show ?thesis using validated_report_level by blast
qed

lemma only_validated_vehicle_returned_image:
  assumes "snd (identify_vehicle_from_image env file) = Inr v"
  shows "\<exists>data. snd (get_vehicle_info_from_image env file) = Inr (JObject data)
          \<and> Vehicle_validate env data = Inr v"
  using after_gateway_success[OF assms[unfolded identify_vehicle_from_image_after]] by blast

lemma only_validated_vehicle_returned_text:
  assumes "snd (identify_vehicle_from_text env text_request) = Inr v"
  shows "\<exists>data. snd (get_vehicle_info_from_text env (query text_request)) = Inr (JObject data)
          \<and> Vehicle_validate env data = Inr v"
  using after_gateway_success[OF assms[unfolded identify_vehicle_from_text_after]] by blast

text \<open>
  Claim C1 at the replies \<^verbatim>\<open>5\<close> and \<^verbatim>\<open>null\<close>. Both are JSON, so the gateway returns the
  parsed value; neither has the shape of a report or of a vehicle. The test
  \<^verbatim>\<open>"error" in llm_result\<close> of the handler, which stands before its \<^verbatim>\<open>try\<close>, raises
  \<^verbatim>\<open>TypeError\<close> on a number and on \<^verbatim>\<open>None\<close>: the handler is left by that exception and not
  by an \<^verbatim>\<open>HTTPException\<close>.
\<close>

theorem non_object_reply_escapes_as_TypeError:
  "snd (get_diagnostic_from_llm (replies ''5'' (JInt 5))
          (vehicle honda_request) (history honda_request)) = Inr (JInt 5)
   \<and> snd (diagnose_from_conversation (replies ''5'' (JInt 5)) honda_request) = Inl TypeError
   \<and> snd (identify_vehicle_from_text (replies ''null'' JNull) camry_request) = Inl TypeError"
proof -
  have "after_gateway init p m gw = (fst gw, Inl TypeError)"
    if "snd gw = Inr (JInt 5)" for init :: "(string, json) fmap \<Rightarrow> line_errors + DiagnosticReportResponse"
      and p m gw
    using that by (rule after_gateway_not_iterable) (simp add: py_in_def)
  moreover have "after_gateway init p m gw = (fst gw, Inl TypeError)"
    if "snd gw = Inr JNull" for init :: "(string, json) fmap \<Rightarrow> line_errors + Vehicle"
      and p m gw
    using that by (rule after_gateway_not_iterable) (simp add: py_in_def)
  ultimately show ?thesis
    by (simp add: replies_gateways[OF raw_json_small(4)] replies_gateways[OF raw_json_small(5)]
        handlers_after)
qed

end
